theory Spec2Isabelle
  imports Main "HOL-Library.Word"
begin

unbundle bit_operations_syntax

section \<open>Privileged-architecture core of the RISC-V simulator\<close>

text \<open>
  A shallow embedding of \<^verbatim>\<open>src/isa/riscv64/system/intr.c\<close> and
  \<^verbatim>\<open>src/isa/riscv64/system/mmu.c\<close>. The sources are written for a matrix of
  preprocessor options. The hypervisor extension (\<^verbatim>\<open>CONFIG_RVH\<close>) is taken as defined, the
  branch every function below is read from; \<^verbatim>\<open>FORCE_RAISE_PF\<close> is defined by
  \<^verbatim>\<open>isa-def.h\<close>; \<^verbatim>\<open>CONFIG_MULTICORE_DIFF\<close> is taken as undefined and
  \<^verbatim>\<open>CONFIG_RV_PMP_CHECK\<close> as defined. The remaining options that change the modelled
  functions are fields of the record \<open>config\<close>, so every theorem holds for each setting of them.
\<close>

subsection \<open>Machine types and constants\<close>

type_synonym word_t = "64 word"
type_synonym vaddr_t = "64 word"
type_synonym paddr_t = "64 word"

text \<open>The access kinds (\<^verbatim>\<open>int type\<close> in the sources), in the order of the enumeration.\<close>

datatype mem_type =
  MEM_TYPE_IFETCH | MEM_TYPE_READ | MEM_TYPE_WRITE | MEM_TYPE_IFETCH_READ | MEM_TYPE_WRITE_READ

text \<open>\<^verbatim>\<open>enum { MODE_U = 0, MODE_S, MODE_RS, MODE_M }\<close> of \<^verbatim>\<open>isa-def.h\<close>, at any width.\<close>

definition MODE_U :: "'a::len word" where "MODE_U = 0"
definition MODE_S :: "'a::len word" where "MODE_S = 1"
definition MODE_RS :: "'a::len word" where "MODE_RS = 2"
definition MODE_M :: "'a::len word" where "MODE_M = 3"

lemmas MODE_defs = MODE_U_def MODE_S_def MODE_RS_def MODE_M_def

text \<open>
  The exception and interrupt numbers, \<^verbatim>\<open>INTR_BIT\<close> and \<^verbatim>\<open>INTR_EMPTY\<close> come from
  \<^verbatim>\<open>local-include/intr.h\<close>, and the return codes, MMU states and page constants from the
  common headers; none of these headers is among the sources. The values are those of
  the RISC-V privileged architecture (cause numbers, interrupt bit positions) and of the
  4 KiB page the code itself uses (\<^verbatim>\<open>PGSHFT\<close> is 12).
\<close>

definition EX_IAM :: word_t where "EX_IAM = 0"
definition EX_IAF :: word_t where "EX_IAF = 1"
definition EX_II :: word_t where "EX_II = 2"
definition EX_BP :: word_t where "EX_BP = 3"
definition EX_LAM :: word_t where "EX_LAM = 4"
definition EX_LAF :: word_t where "EX_LAF = 5"
definition EX_SAM :: word_t where "EX_SAM = 6"
definition EX_SAF :: word_t where "EX_SAF = 7"
definition EX_IPF :: word_t where "EX_IPF = 12"
definition EX_LPF :: word_t where "EX_LPF = 13"
definition EX_SPF :: word_t where "EX_SPF = 15"
definition EX_IGPF :: word_t where "EX_IGPF = 20"
definition EX_LGPF :: word_t where "EX_LGPF = 21"
definition EX_VI :: word_t where "EX_VI = 22"
definition EX_SGPF :: word_t where "EX_SGPF = 23"

lemmas EX_defs = EX_IAM_def EX_IAF_def EX_II_def EX_BP_def EX_LAM_def EX_LAF_def EX_SAM_def
  EX_SAF_def EX_IPF_def EX_LPF_def EX_SPF_def EX_IGPF_def EX_LGPF_def EX_VI_def EX_SGPF_def

definition INTR_BIT :: word_t where "INTR_BIT = push_bit 63 1"
definition INTR_EMPTY :: word_t where "INTR_EMPTY = - 1"

definition IRQ_USIP :: nat where "IRQ_USIP = 0"
definition IRQ_SSIP :: nat where "IRQ_SSIP = 1"
definition IRQ_VSSIP :: nat where "IRQ_VSSIP = 2"
definition IRQ_MSIP :: nat where "IRQ_MSIP = 3"
definition IRQ_UTIP :: nat where "IRQ_UTIP = 4"
definition IRQ_STIP :: nat where "IRQ_STIP = 5"
definition IRQ_VSTIP :: nat where "IRQ_VSTIP = 6"
definition IRQ_MTIP :: nat where "IRQ_MTIP = 7"
definition IRQ_UEIP :: nat where "IRQ_UEIP = 8"
definition IRQ_SEIP :: nat where "IRQ_SEIP = 9"
definition IRQ_VSEIP :: nat where "IRQ_VSEIP = 10"
definition IRQ_MEIP :: nat where "IRQ_MEIP = 11"
definition IRQ_SGEI :: nat where "IRQ_SGEI = 12"
definition IRQ_LCOFI :: nat where "IRQ_LCOFI = 13"

lemmas IRQ_defs = IRQ_USIP_def IRQ_SSIP_def IRQ_VSSIP_def IRQ_MSIP_def IRQ_UTIP_def
  IRQ_STIP_def IRQ_VSTIP_def IRQ_MTIP_def IRQ_UEIP_def IRQ_SEIP_def IRQ_VSEIP_def
  IRQ_MEIP_def IRQ_SGEI_def IRQ_LCOFI_def

definition MEM_RET_OK :: paddr_t where "MEM_RET_OK = 0"
definition MEM_RET_FAIL :: paddr_t where "MEM_RET_FAIL = 1"
definition MEM_RET_CROSS_PAGE :: paddr_t where "MEM_RET_CROSS_PAGE = 2"

definition MMU_DIRECT :: int where "MMU_DIRECT = 0"
definition MMU_TRANSLATE :: int where "MMU_TRANSLATE = 1"

definition PAGE_SIZE :: word_t where "PAGE_SIZE = 4096"
definition PAGE_MASK :: word_t where "PAGE_MASK = 4095"

text \<open>
  The C expression \<^verbatim>\<open>1 << k\<close> is computed in \<^verbatim>\<open>int\<close> and converted to the 64-bit
  \<^verbatim>\<open>word_t\<close> it is combined with, which extends the sign. C defines it for \<open>k < 31\<close>;
  the theorems that depend on it carry that bound.
\<close>

definition int_shl1 :: "nat \<Rightarrow> word_t" where
  "int_shl1 k = scast (push_bit k (1 :: 32 word))"

subsection \<open>Architectural state\<close>

text \<open>
  The bit-field views \<^verbatim>\<open>mstatus->...\<close> and \<^verbatim>\<open>vsstatus->...\<close>: the fields the two files
  read or write, each with the width of its bit-field.
\<close>

record status_t =
  sie :: bool
  mie :: bool
  spie :: bool
  mpie :: bool
  spp :: "1 word"
  mpp :: "2 word"
  mprv :: bool
  sum :: bool
  mxr :: bool
  gva :: bool
  mpv :: bool

record hstatus_t =
  gva_h :: bool
  spv :: bool
  spvp :: "1 word"

text \<open>\<^verbatim>\<open>struct ExecutionGuide\<close> of \<^verbatim>\<open>isa-def.h\<close> (the fields of the forced exceptions).\<close>

record ExecutionGuide =
  force_raise_exception :: bool
  exception_num :: "64 word"
  mtval_g :: "64 word"
  stval_g :: "64 word"
  mtval2_g :: "64 word"
  htval_g :: "64 word"
  vstval_g :: "64 word"

text \<open>
  The CPU state, the CSRs and the file-level variables of the two files. A CSR that is used
  as a whole (\<^verbatim>\<open>mcause->val\<close>) is a 64-bit word; \<open>mie_reg\<close> and \<open>mip_reg\<close> are the
  registers \<^verbatim>\<open>mie\<close> and \<^verbatim>\<open>mip\<close> (the name \<open>mie\<close> is the field of \<^verbatim>\<open>mstatus\<close>).
  \<^verbatim>\<open>cpu.v\<close> only ever holds 0 or 1 and is a flag here. \<open>flush_tcache\<close> records
  \<^verbatim>\<open>set_sys_state_flag(SYS_STATE_FLUSH_TCACHE)\<close>. The arrays \<open>last_addr\<close> and
  \<open>force_count\<close> are the function-local statics of \<^verbatim>\<open>force_raise_pf_record\<close>, indexed by
  the access kind; \<open>pmpaddr\<close> and \<open>pmpcfg\<close> stand for \<^verbatim>\<open>pmpaddr_from_index\<close> and
  \<^verbatim>\<open>pmpcfg_from_index\<close>.
\<close>

record state =
  mode :: "64 word"
  v :: bool
  amo :: bool
  instr :: "32 word"
  guided_exec :: bool
  execution_guide :: ExecutionGuide
  mstatus :: status_t
  vsstatus :: status_t
  hstatus :: hstatus_t
  medeleg :: "64 word"
  mideleg :: "64 word"
  hedeleg :: "64 word"
  hideleg :: "64 word"
  mie_reg :: "64 word"
  mip_reg :: "64 word"
  satp :: "64 word"
  vsatp :: "64 word"
  hgatp :: "64 word"
  mcause :: "64 word"
  mepc :: "64 word"
  mtval :: "64 word"
  mtval2 :: "64 word"
  mtinst :: "64 word"
  mtvec :: "64 word"
  scause :: "64 word"
  sepc :: "64 word"
  stval :: "64 word"
  stvec :: "64 word"
  htval :: "64 word"
  htinst :: "64 word"
  vscause :: "64 word"
  vsepc :: "64 word"
  vstval :: "64 word"
  vstvec :: "64 word"
  tcontrol_mte :: bool
  tcontrol_mpte :: bool
  hlvx :: bool
  hld_st :: bool
  pt_level :: int
  ifetch_mmu_state :: int
  data_mmu_state :: int
  h_mmu_state :: int
  last_addr :: "mem_type \<Rightarrow> 64 word"
  force_count :: "mem_type \<Rightarrow> 32 word"
  g_last_addr :: "mem_type \<Rightarrow> 64 word"
  g_force_count :: "mem_type \<Rightarrow> 32 word"
  flush_tcache :: bool
  pmpaddr :: "nat \<Rightarrow> 64 word"
  pmpcfg :: "nat \<Rightarrow> 8 word"

text \<open>
  The translation-mode and root-page-number fields of \<^verbatim>\<open>satp\<close>, \<^verbatim>\<open>vsatp\<close> and
  \<^verbatim>\<open>hgatp\<close> (bits 63..60 and 43..0 of the register).
\<close>

definition atp_mode :: "64 word \<Rightarrow> 64 word" where
  "atp_mode r = drop_bit 60 r"

definition atp_ppn :: "64 word \<Rightarrow> 64 word" where
  "atp_ppn r = r AND mask 44"

text \<open>
  The preprocessor options that select code inside the modelled functions, the number of
  active PMP entries, and the value of \<^verbatim>\<open>pmp_tor_mask()\<close>, a function of the CSR code that
  is not among the sources.
\<close>

record config =
  CONFIG_SHARE :: bool
  CONFIG_USE_XS_ARCH_CSRS :: bool
  CONFIG_RV_SV48 :: bool
  CONFIG_AC_SOFT :: bool
  CONFIG_TVAL_EX_II :: bool
  CONFIG_RV_SDTRIG :: bool
  CONFIG_RV_SSCOFPMF :: bool
  CONFIG_RV_PMP_ACTIVE_NUM :: nat
  pmp_tor_mask :: "64 word"

text \<open>
  What a call does: it returns a value, or leaves through \<^verbatim>\<open>longjmp_exception(ex)\<close>
  with the state as it is at the jump, or stops the simulator at a failed \<^verbatim>\<open>assert\<close>.
\<close>

datatype 'a outcome = Returned 'a state | Raised word_t state | Aborted

definition bind :: "'a outcome \<Rightarrow> ('a \<Rightarrow> state \<Rightarrow> 'b outcome) \<Rightarrow> 'b outcome" where
  "bind m f = (case m of Returned x s \<Rightarrow> f x s | Raised ex s \<Rightarrow> Raised ex s | Aborted \<Rightarrow> Aborted)"

subsection \<open>Trap delegation (\<^verbatim>\<open>intr.c\<close>)\<close>

definition intr_deleg_S :: "state \<Rightarrow> word_t \<Rightarrow> bool" where
  "intr_deleg_S s exceptionNO =
     (let deleg = (if exceptionNO AND INTR_BIT \<noteq> 0 then mideleg s else medeleg s) in
      deleg AND int_shl1 (unat (exceptionNO AND 0xff)) \<noteq> 0 \<and> mode s < MODE_M)"

definition intr_deleg_VS :: "state \<Rightarrow> word_t \<Rightarrow> bool" where
  "intr_deleg_VS s exceptionNO =
     (let delegS = intr_deleg_S s exceptionNO;
          deleg = (if exceptionNO AND INTR_BIT \<noteq> 0 then hideleg s else hedeleg s);
          delegVS = (v s \<and> deleg AND int_shl1 (unat (exceptionNO AND 0xff)) \<noteq> 0
                       \<and> mode s < MODE_M)
      in delegS \<and> delegVS)"

definition get_trap_pc :: "word_t \<Rightarrow> word_t \<Rightarrow> word_t" where
  "get_trap_pc xtvec xcause =
     (let base = push_bit 2 (drop_bit 2 xtvec);
          tmode = xtvec AND 1;
          is_intr = (drop_bit 63 xcause = 1);
          cause_no = xcause AND 0xff
      in if is_intr \<and> tmode = 1 then base + push_bit 2 cause_no else base)"

text \<open>
  \<^verbatim>\<open>update_mmu_state_internal\<close> and \<^verbatim>\<open>update_h_mmu_state_internal\<close> of \<^verbatim>\<open>mmu.c\<close>;
  \<open>None\<close> is a failed \<^verbatim>\<open>assert\<close> on the translation mode.
\<close>

definition update_mmu_state_internal :: "config \<Rightarrow> state \<Rightarrow> bool \<Rightarrow> int option" where
  "update_mmu_state_internal cfg s ifetch =
     (let m = (ucast (if mprv (mstatus s) \<and> \<not> ifetch then ucast (mpp (mstatus s)) else mode s)
                 :: 32 word) in
      if m < MODE_M then
        (if CONFIG_RV_SV48 cfg then
           (if \<not> (atp_mode (satp s) = 0 \<or> atp_mode (satp s) = 8 \<or> atp_mode (satp s) = 9)
            then None
            else if atp_mode (satp s) = 8 \<or> atp_mode (satp s) = 9 then Some MMU_TRANSLATE
            else Some MMU_DIRECT)
         else
           (if \<not> (atp_mode (satp s) = 0 \<or> atp_mode (satp s) = 8) then None
            else if atp_mode (satp s) = 8 then Some MMU_TRANSLATE
            else Some MMU_DIRECT))
      else Some MMU_DIRECT)"

definition update_h_mmu_state_internal :: "config \<Rightarrow> state \<Rightarrow> bool \<Rightarrow> int option" where
  "update_h_mmu_state_internal cfg s ifetch =
     (let m = (ucast (if mprv (mstatus s) \<and> \<not> ifetch then ucast (mpp (mstatus s)) else mode s)
                 :: 32 word) in
      if m < MODE_M then
        (if CONFIG_RV_SV48 cfg then
           (if \<not> (atp_mode (vsatp s) = 0 \<or> atp_mode (vsatp s) = 8 \<or> atp_mode (vsatp s) = 9)
            then None
            else if \<not> (atp_mode (hgatp s) = 0 \<or> atp_mode (hgatp s) = 8 \<or> atp_mode (hgatp s) = 9)
            then None
            else if atp_mode (vsatp s) = 8 \<or> atp_mode (vsatp s) = 9
                    \<or> atp_mode (hgatp s) = 8 \<or> atp_mode (hgatp s) = 9
            then Some MMU_TRANSLATE
            else Some MMU_DIRECT)
         else
           (if \<not> (atp_mode (vsatp s) = 0 \<or> atp_mode (vsatp s) = 8) then None
            else if \<not> (atp_mode (hgatp s) = 0 \<or> atp_mode (hgatp s) = 8) then None
            else if atp_mode (vsatp s) = 8 \<or> atp_mode (hgatp s) = 8 then Some MMU_TRANSLATE
            else Some MMU_DIRECT))
      else Some MMU_DIRECT)"

definition update_mmu_state :: "config \<Rightarrow> state \<Rightarrow> bool outcome" where
  "update_mmu_state cfg s =
     (case update_mmu_state_internal cfg s True of
        None \<Rightarrow> Aborted
      | Some i \<Rightarrow>
          (let s1 = s\<lparr>ifetch_mmu_state := i\<rparr>;
               data_mmu_state_old = data_mmu_state s1
           in case update_mmu_state_internal cfg s1 False of
                None \<Rightarrow> Aborted
              | Some d \<Rightarrow>
                  (let s2 = s1\<lparr>data_mmu_state := d\<rparr>
                   in case update_h_mmu_state_internal cfg s2 False of
                        None \<Rightarrow> Aborted
                      | Some h \<Rightarrow>
                          Returned (d \<noteq> data_mmu_state_old) (s2\<lparr>h_mmu_state := h\<rparr>))))"

text \<open>
  The cases \<^verbatim>\<open>EX_IPF, EX_LPF, EX_SPF, EX_LAM, EX_SAM, EX_IAF, EX_LAF, EX_SAF\<close> that share
  one arm in each \<^verbatim>\<open>switch (NO)\<close> of \<^verbatim>\<open>raise_intr\<close>, and the guest-page-fault cases.
\<close>

definition case_mem_fault :: "word_t \<Rightarrow> bool" where
  "case_mem_fault NO =
     (NO = EX_IPF \<or> NO = EX_LPF \<or> NO = EX_SPF \<or> NO = EX_LAM \<or> NO = EX_SAM
        \<or> NO = EX_IAF \<or> NO = EX_LAF \<or> NO = EX_SAF)"

definition case_guest_fault :: "word_t \<Rightarrow> bool" where
  "case_guest_fault NO = (NO = EX_IGPF \<or> NO = EX_LGPF \<or> NO = EX_SGPF)"

text \<open>
  The value written to the \<^verbatim>\<open>gva\<close> field of \<^verbatim>\<open>hstatus\<close> or \<^verbatim>\<open>mstatus\<close>; \<open>vv\<close> is the
  local \<^verbatim>\<open>int v = (mstatus->mprv) ? mstatus->mpv : cpu.v\<close>.
\<close>

definition gva_of :: "state \<Rightarrow> bool \<Rightarrow> word_t \<Rightarrow> bool" where
  "gva_of s hld_st_temp NO =
     (let vv = (if mprv (mstatus s) then mpv (mstatus s) else v s) in
      NO = EX_IGPF \<or> NO = EX_LGPF \<or> NO = EX_SGPF
        \<or> ((vv \<or> hld_st_temp)
             \<and> ((0 \<le> NO \<and> NO \<le> 7 \<and> NO \<noteq> 2) \<or> NO = EX_IPF \<or> NO = EX_LPF \<or> NO = EX_SPF)))"

text \<open>
  \<^verbatim>\<open>raise_intr\<close>. The calls of \<^verbatim>\<open>difftest_skip_dut\<close> at its head act on the
  differential-testing harness only and are left out. \<open>tval_instr\<close> is
  \<^verbatim>\<open>MUXDEF(CONFIG_TVAL_EX_II, cpu.instr, 0)\<close>.
\<close>

definition tval_instr :: "config \<Rightarrow> state \<Rightarrow> word_t" where
  "tval_instr cfg s = (if CONFIG_TVAL_EX_II cfg then ucast (instr s) else 0)"

definition raise_intr_VS :: "config \<Rightarrow> state \<Rightarrow> word_t \<Rightarrow> vaddr_t \<Rightarrow> word_t outcome" where
  "raise_intr_VS cfg s NO epc =
     (let s1 = s\<lparr>vscause := (if NO AND INTR_BIT \<noteq> 0
                               then ((NO AND NOT INTR_BIT) - 1) OR INTR_BIT else NO)\<rparr>;
          s2 = s1\<lparr>vsepc := epc\<rparr>;
          s3 = s2\<lparr>vsstatus := (vsstatus s2)\<lparr>spp := ucast (mode s2)\<rparr>\<rparr>;
          s4 = s3\<lparr>vsstatus := (vsstatus s3)\<lparr>spie := sie (vsstatus s3)\<rparr>\<rparr>;
          s5 = s4\<lparr>vsstatus := (vsstatus s4)\<lparr>sie := False\<rparr>\<rparr>;
          s6 = (if case_mem_fault NO then s5
                else if NO = EX_BP then s5\<lparr>vstval := epc\<rparr>
                else if NO = EX_II then s5\<lparr>vstval := tval_instr cfg s5\<rparr>
                else s5\<lparr>vstval := 0\<rparr>);
          s7 = s6\<lparr>v := True\<rparr>;
          s8 = s7\<lparr>mode := MODE_S\<rparr>
      in bind (update_mmu_state cfg s8)
           (\<lambda>_ s9. Returned (get_trap_pc (vstvec s9) (vscause s9)) s9))"

definition raise_intr_S ::
  "config \<Rightarrow> state \<Rightarrow> bool \<Rightarrow> word_t \<Rightarrow> vaddr_t \<Rightarrow> word_t outcome" where
  "raise_intr_S cfg s hld_st_temp NO epc =
     (let h1 = s\<lparr>hstatus := (hstatus s)\<lparr>gva_h := gva_of s hld_st_temp NO\<rparr>\<rparr>;
          h2 = h1\<lparr>hstatus := (hstatus h1)\<lparr>spv := v h1\<rparr>\<rparr>;
          h3 = (if v h2 then h2\<lparr>hstatus := (hstatus h2)\<lparr>spvp := ucast (mode h2)\<rparr>\<rparr> else h2);
          h4 = h3\<lparr>v := False\<rparr>;
          h5 = h4\<lparr>flush_tcache := True\<rparr>;
          s1 = h5\<lparr>scause := NO\<rparr>;
          s2 = s1\<lparr>sepc := epc\<rparr>;
          s3 = s2\<lparr>mstatus := (mstatus s2)\<lparr>spp := ucast (mode s2)\<rparr>\<rparr>;
          s4 = s3\<lparr>mstatus := (mstatus s3)\<lparr>spie := sie (mstatus s3)\<rparr>\<rparr>;
          s5 = s4\<lparr>mstatus := (mstatus s4)\<lparr>sie := False\<rparr>\<rparr>;
          s6 = (if case_mem_fault NO then s5\<lparr>htval := 0\<rparr>
                else if case_guest_fault NO then s5
                else if NO = EX_II \<or> NO = EX_VI
                  then s5\<lparr>stval := tval_instr cfg s5, htval := 0\<rparr>
                else if NO = EX_BP then s5\<lparr>htval := 0, stval := epc\<rparr>
                else s5\<lparr>stval := 0, htval := 0\<rparr>);
          s7 = s6\<lparr>htinst := 0\<rparr>;
          s8 = s7\<lparr>mode := MODE_S\<rparr>
      in bind (update_mmu_state cfg s8)
           (\<lambda>_ s9. Returned (get_trap_pc (stvec s9) (scause s9)) s9))"

definition raise_intr_M ::
  "config \<Rightarrow> state \<Rightarrow> bool \<Rightarrow> word_t \<Rightarrow> vaddr_t \<Rightarrow> word_t outcome" where
  "raise_intr_M cfg s hld_st_temp NO epc =
     (let h1 = s\<lparr>mstatus := (mstatus s)\<lparr>gva := gva_of s hld_st_temp NO\<rparr>\<rparr>;
          h2 = h1\<lparr>mstatus := (mstatus h1)\<lparr>mpv := v h1\<rparr>\<rparr>;
          h3 = h2\<lparr>v := False\<rparr>;
          h4 = h3\<lparr>flush_tcache := True\<rparr>;
          t1 = (if CONFIG_RV_SDTRIG cfg
                then h4\<lparr>tcontrol_mpte := tcontrol_mte h4, tcontrol_mte := False\<rparr> else h4);
          s1 = t1\<lparr>mcause := NO\<rparr>;
          s2 = s1\<lparr>mepc := epc\<rparr>;
          s3 = s2\<lparr>mstatus := (mstatus s2)\<lparr>mpp := ucast (mode s2)\<rparr>\<rparr>;
          s4 = s3\<lparr>mstatus := (mstatus s3)\<lparr>mpie := mie (mstatus s3)\<rparr>\<rparr>;
          s5 = s4\<lparr>mstatus := (mstatus s4)\<lparr>mie := False\<rparr>\<rparr>;
          s6 = (if case_mem_fault NO then s5\<lparr>mtval2 := 0\<rparr>
                else if case_guest_fault NO then s5
                else if NO = EX_II \<or> NO = EX_VI
                  then s5\<lparr>mtval := tval_instr cfg s5, mtval2 := 0\<rparr>
                else if NO = EX_BP then s5\<lparr>mtval := epc\<rparr>
                else s5\<lparr>mtval := 0, mtval2 := 0\<rparr>);
          s7 = s6\<lparr>mtinst := 0\<rparr>;
          s8 = s7\<lparr>mode := MODE_M\<rparr>
      in bind (update_mmu_state cfg s8)
           (\<lambda>_ s9. Returned (get_trap_pc (mtvec s9) (mcause s9)) s9))"

definition raise_intr :: "config \<Rightarrow> state \<Rightarrow> word_t \<Rightarrow> vaddr_t \<Rightarrow> word_t outcome" where
  "raise_intr cfg s0 NO epc =
     (let delegS = intr_deleg_S s0 NO;
          hld_st_temp = hld_st s0;
          s = s0\<lparr>hld_st := False\<rparr>;
          delegVS = intr_deleg_VS s NO
      in if delegVS then raise_intr_VS cfg s NO epc
         else if delegS then raise_intr_S cfg s hld_st_temp NO epc
         else raise_intr_M cfg s hld_st_temp NO epc)"

subsection \<open>Pending interrupts (\<^verbatim>\<open>isa_query_intr\<close>)\<close>

definition priority :: "config \<Rightarrow> nat list" where
  "priority cfg =
     [IRQ_MEIP, IRQ_MSIP, IRQ_MTIP,
      IRQ_SEIP, IRQ_SSIP, IRQ_STIP,
      IRQ_UEIP, IRQ_USIP, IRQ_UTIP,
      IRQ_VSEIP, IRQ_VSSIP, IRQ_VSTIP, IRQ_SGEI]
     @ (if CONFIG_RV_SSCOFPMF cfg then [IRQ_LCOFI] else [])"

text \<open>The body of the \<^verbatim>\<open>for\<close> loop over \<^verbatim>\<open>priority[i]\<close>, from index \<open>i\<close> on.\<close>

fun query_loop :: "state \<Rightarrow> word_t \<Rightarrow> nat list \<Rightarrow> word_t" where
  "query_loop s intr_vec [] = INTR_EMPTY"
| "query_loop s intr_vec (irq # rest) =
     (if intr_vec AND int_shl1 irq \<noteq> 0 then
        (let deleg = (mideleg s AND int_shl1 irq \<noteq> 0);
             hdeleg = (hideleg s AND int_shl1 irq \<noteq> 0);
             global_enable =
               (if hdeleg \<and> deleg
                  then (v s \<and> mode s = MODE_S \<and> sie (vsstatus s)) \<or> (v s \<and> mode s < MODE_S)
                else if deleg
                  then (mode s = MODE_S \<and> sie (mstatus s)) \<or> mode s < MODE_S \<or> v s
                else (mode s = MODE_M \<and> mie (mstatus s)) \<or> mode s < MODE_M)
         in if global_enable then of_nat irq OR INTR_BIT else query_loop s intr_vec rest)
      else query_loop s intr_vec rest)"

definition isa_query_intr :: "config \<Rightarrow> state \<Rightarrow> word_t" where
  "isa_query_intr cfg s =
     (let intr_vec = mie_reg s AND mip_reg s in
      if intr_vec = 0 then INTR_EMPTY else query_loop s intr_vec (priority cfg))"

subsection \<open>Page-table entries and the external interfaces (\<^verbatim>\<open>mmu.c\<close>)\<close>

text \<open>
  \<^verbatim>\<open>union PageTableEntry\<close>: a 64-bit value read through its bit-fields, from bit 0 upwards
  \<^verbatim>\<open>v r w x u g a d\<close>, two bits \<^verbatim>\<open>rsw\<close>, 44 bits \<^verbatim>\<open>ppn\<close> and 10 bits \<^verbatim>\<open>pad\<close>.
\<close>

definition pte_v :: "64 word \<Rightarrow> bool" where "pte_v pte = bit pte 0"
definition pte_r :: "64 word \<Rightarrow> bool" where "pte_r pte = bit pte 1"
definition pte_w :: "64 word \<Rightarrow> bool" where "pte_w pte = bit pte 2"
definition pte_x :: "64 word \<Rightarrow> bool" where "pte_x pte = bit pte 3"
definition pte_u :: "64 word \<Rightarrow> bool" where "pte_u pte = bit pte 4"
definition pte_a :: "64 word \<Rightarrow> bool" where "pte_a pte = bit pte 6"
definition pte_d :: "64 word \<Rightarrow> bool" where "pte_d pte = bit pte 7"
definition pte_ppn :: "64 word \<Rightarrow> 64 word" where "pte_ppn pte = drop_bit 10 pte AND mask 44"
definition pte_pad :: "64 word \<Rightarrow> 64 word" where "pte_pad pte = drop_bit 54 pte"

lemmas pte_defs = pte_v_def pte_r_def pte_w_def pte_x_def pte_u_def pte_a_def pte_d_def
  pte_ppn_def pte_pad_def

definition PGSHFT :: nat where "PGSHFT = 12"
definition PGMASK :: word_t where "PGMASK = push_bit PGSHFT 1 - 1"
definition PGBASE :: "word_t \<Rightarrow> word_t" where "PGBASE pn = push_bit PGSHFT pn"
definition PTE_SIZE :: word_t where "PTE_SIZE = 8"
definition VPNMASK :: word_t where "VPNMASK = 0x1ff"
definition GPVPNMASK :: word_t where "GPVPNMASK = 0x7ff"

text \<open>The level \<open>i\<close> is an \<^verbatim>\<open>int\<close> that the walks keep at 0 or above.\<close>

definition VPNiSHFT :: "int \<Rightarrow> nat" where
  "VPNiSHFT i = PGSHFT + 9 * nat i"

definition VPNi :: "vaddr_t \<Rightarrow> int \<Rightarrow> word_t" where
  "VPNi va i = drop_bit (VPNiSHFT i) va AND VPNMASK"

definition GVPNi :: "vaddr_t \<Rightarrow> int \<Rightarrow> word_t" where
  "GVPNi va i =
     (if i = 2 then drop_bit (VPNiSHFT i) va AND GPVPNMASK
      else drop_bit (VPNiSHFT i) va AND VPNMASK)"

text \<open>
  The collaborators outside the two files: the physical read
  \<^verbatim>\<open>paddr_read(addr, len, type, mode, vaddr)\<close>, which may itself raise an exception,
  and the predicate \<^verbatim>\<open>is_in_mmio\<close>. Every theorem holds for each of them.
\<close>

record env =
  paddr_read ::
    "paddr_t \<Rightarrow> nat \<Rightarrow> mem_type \<Rightarrow> 32 word \<Rightarrow> vaddr_t \<Rightarrow> state \<Rightarrow> word_t outcome"
  is_in_mmio :: "paddr_t \<Rightarrow> bool"

text \<open>
  Modelled from the spec: the macro \<^verbatim>\<open>INTR_TVAL_REG(ex)\<close> of \<^verbatim>\<open>local-include/intr.h\<close>,
  which is not among the sources. The spec has the faulting address recorded in the
  trap-value register chosen by the current delegation target: \<^verbatim>\<open>vstval\<close> for a cause
  delegated to virtual-supervisor level, \<^verbatim>\<open>stval\<close> for one delegated to supervisor level,
  \<^verbatim>\<open>mtval\<close> otherwise. The function is the assignment \<^verbatim>\<open>INTR_TVAL_REG(ex) = val\<close>.
\<close>

definition INTR_TVAL_REG_write :: "state \<Rightarrow> word_t \<Rightarrow> word_t \<Rightarrow> state" where
  "INTR_TVAL_REG_write s ex val =
     (if intr_deleg_VS s ex then s\<lparr>vstval := val\<rparr>
      else if intr_deleg_S s ex then s\<lparr>stval := val\<rparr>
      else s\<lparr>mtval := val\<rparr>)"

text \<open>
  \<^verbatim>\<open>INTR_TVAL_SV48_SEXT\<close> of \<^verbatim>\<open>intr.c\<close> (\<^verbatim>\<open>SEXT(x, n)\<close> extends the sign of the low
  \<open>n\<close> bits), and the statement
  \<^verbatim>\<open>IFDEF(CONFIG_USE_XS_ARCH_CSRS, vaddr = INTR_TVAL_SV48_SEXT(vaddr))\<close>.
\<close>

definition INTR_TVAL_SV48_SEXT :: "config \<Rightarrow> word_t \<Rightarrow> word_t" where
  "INTR_TVAL_SV48_SEXT cfg vaddr =
     (if CONFIG_RV_SV48 cfg then signed_take_bit 47 (vaddr AND 0xFFFFFFFFFFFF)
      else signed_take_bit 38 (vaddr AND 0x7FFFFFFFFF))"

definition xs_sext :: "config \<Rightarrow> word_t \<Rightarrow> word_t" where
  "xs_sext cfg vaddr =
     (if CONFIG_USE_XS_ARCH_CSRS cfg then INTR_TVAL_SV48_SEXT cfg vaddr else vaddr)"

subsection \<open>Permission checker\<close>

text \<open>
  \<^verbatim>\<open>check_permission(pte, ok, vaddr, type, virt, mode)\<close>. \<open>Aborted\<close> is a failed
  \<^verbatim>\<open>assert\<close>; \<open>update_ad\<close> is \<^verbatim>\<open>false\<close> unless \<^verbatim>\<open>CONFIG_SHARE\<close> is defined.
\<close>

definition check_permission ::
  "config \<Rightarrow> word_t \<Rightarrow> bool \<Rightarrow> vaddr_t \<Rightarrow> mem_type \<Rightarrow> bool \<Rightarrow> 32 word \<Rightarrow> state
     \<Rightarrow> bool outcome" where
  "check_permission cfg pte ok0 vaddr type virt pmode s =
     (let ifetch = (type = MEM_TYPE_IFETCH) in
      if \<not> (pmode = MODE_U \<or> pmode = MODE_S) then Aborted
      else
        (let ok1 = (ok0 \<and> pte_v pte);
             ok2 = (ok1 \<and> \<not> (pmode = MODE_U \<and> \<not> pte_u pte));
             ok = (ok2 \<and> \<not> (pte_u pte \<and> (pmode = MODE_S
                      \<and> (\<not> (if virt then sum (vsstatus s) else sum (mstatus s)) \<or> ifetch))))
         in if ifetch then
              (let update_ad = (if CONFIG_SHARE cfg then \<not> pte_a pte else False) in
               if \<not> (ok \<and> pte_x pte \<and> pte_pad pte = 0) \<or> update_ad then
                 (if amo s then Aborted
                  else Raised EX_IPF (INTR_TVAL_REG_write s EX_IPF (xs_sext cfg vaddr)))
               else Returned True s)
            else if type = MEM_TYPE_READ then
              (let can_load =
                     (if hlvx s then pte_x pte
                      else pte_r pte
                             \<or> ((mxr (mstatus s) \<or> (mxr (vsstatus s) \<and> virt)) \<and> pte_x pte));
                   update_ad = (if CONFIG_SHARE cfg then \<not> pte_a pte else False)
               in if \<not> (ok \<and> can_load \<and> pte_pad pte = 0) \<or> update_ad then
                    (let ex = (if amo s then EX_SPF else EX_LPF);
                         s1 = INTR_TVAL_REG_write s ex (xs_sext cfg vaddr);
                         s2 = s1\<lparr>amo := False\<rparr>
                     in Raised ex s2)
                  else Returned True s)
            else
              (let update_ad = (if CONFIG_SHARE cfg then \<not> pte_a pte \<or> \<not> pte_d pte else False) in
               if \<not> (ok \<and> pte_w pte \<and> pte_pad pte = 0) \<or> update_ad then
                 (let s1 = INTR_TVAL_REG_write s EX_SPF (xs_sext cfg vaddr);
                      s2 = s1\<lparr>amo := False\<rparr>
                  in Raised EX_SPF s2)
               else Returned True s)))"

subsection \<open>Forced exceptions\<close>

text \<open>
  \<^verbatim>\<open>force_raise_pf_record\<close> and \<^verbatim>\<open>force_raise_gpf_record\<close>: the counter of the access kind
  restarts when the address changes, and the fifth call in a row answers 1.
\<close>

definition force_raise_pf_record :: "vaddr_t \<Rightarrow> mem_type \<Rightarrow> state \<Rightarrow> bool \<times> state" where
  "force_raise_pf_record vaddr type s =
     (let s1 = (if vaddr \<noteq> last_addr s type
                then s\<lparr>last_addr := (last_addr s)(type := vaddr),
                       force_count := (force_count s)(type := 0)\<rparr>
                else s);
          s2 = s1\<lparr>force_count := (force_count s1)(type := force_count s1 type + 1)\<rparr>
      in (force_count s2 type = 5, s2))"

definition force_raise_gpf_record :: "vaddr_t \<Rightarrow> mem_type \<Rightarrow> state \<Rightarrow> bool \<times> state" where
  "force_raise_gpf_record vaddr type s =
     (let s1 = (if vaddr \<noteq> g_last_addr s type
                then s\<lparr>g_last_addr := (g_last_addr s)(type := vaddr),
                       g_force_count := (g_force_count s)(type := 0)\<rparr>
                else s);
          s2 = s1\<lparr>g_force_count := (g_force_count s1)(type := g_force_count s1 type + 1)\<rparr>
      in (g_force_count s2 type = 5, s2))"

definition force_raise_pf :: "config \<Rightarrow> vaddr_t \<Rightarrow> mem_type \<Rightarrow> state \<Rightarrow> paddr_t outcome" where
  "force_raise_pf cfg vaddr type s =
     (let ifetch = (type = MEM_TYPE_IFETCH); g = execution_guide s in
      if guided_exec s \<and> force_raise_exception g then
        (if ifetch \<and> exception_num g = EX_IPF then
           (case force_raise_pf_record vaddr type s of
              (True, s1) \<Rightarrow> Returned MEM_RET_OK s1
            | (False, s1) \<Rightarrow>
                (if intr_deleg_VS s1 EX_IPF then Raised EX_IPF (s1\<lparr>vstval := vstval_g g\<rparr>)
                 else if intr_deleg_S s1 EX_IPF then Raised EX_IPF (s1\<lparr>stval := stval_g g\<rparr>)
                 else Raised EX_IPF (s1\<lparr>mtval := mtval_g g\<rparr>)))
         else if \<not> ifetch \<and> type = MEM_TYPE_READ \<and> exception_num g = EX_LPF then
           (case force_raise_pf_record vaddr type s of
              (True, s1) \<Rightarrow> Returned MEM_RET_OK s1
            | (False, s1) \<Rightarrow> Raised EX_LPF (INTR_TVAL_REG_write s1 EX_LPF (xs_sext cfg vaddr)))
         else if type = MEM_TYPE_WRITE \<and> exception_num g = EX_SPF then
           (case force_raise_pf_record vaddr type s of
              (True, s1) \<Rightarrow> Returned MEM_RET_OK s1
            | (False, s1) \<Rightarrow> Raised EX_SPF (INTR_TVAL_REG_write s1 EX_SPF (xs_sext cfg vaddr)))
         else Returned MEM_RET_OK s)
      else Returned MEM_RET_OK s)"

definition force_raise_gpf :: "vaddr_t \<Rightarrow> mem_type \<Rightarrow> state \<Rightarrow> paddr_t outcome" where
  "force_raise_gpf vaddr type s =
     (let ifetch = (type = MEM_TYPE_IFETCH); g = execution_guide s in
      if guided_exec s \<and> force_raise_exception g then
        (if ifetch \<and> exception_num g = EX_IGPF then
           (case force_raise_gpf_record vaddr type s of
              (True, s1) \<Rightarrow> Returned MEM_RET_OK s1
            | (False, s1) \<Rightarrow>
                (if intr_deleg_S s1 EX_IGPF
                 then Raised EX_IGPF (s1\<lparr>stval := stval_g g, htval := htval_g g\<rparr>)
                 else Raised EX_IGPF (s1\<lparr>mtval := mtval_g g, mtval2 := mtval2_g g\<rparr>)))
         else if \<not> ifetch \<and> type = MEM_TYPE_READ \<and> exception_num g = EX_LGPF then
           (case force_raise_gpf_record vaddr type s of
              (True, s1) \<Rightarrow> Returned MEM_RET_OK s1
            | (False, s1) \<Rightarrow>
                Raised EX_LGPF
                  ((INTR_TVAL_REG_write s1 EX_LGPF vaddr)\<lparr>htval := htval_g g, mtval2 := mtval2_g g\<rparr>))
         else if type = MEM_TYPE_WRITE \<and> exception_num g = EX_SGPF then
           (case force_raise_gpf_record vaddr type s of
              (True, s1) \<Rightarrow> Returned MEM_RET_OK s1
            | (False, s1) \<Rightarrow>
                Raised EX_SGPF
                  ((INTR_TVAL_REG_write s1 EX_SPF vaddr)\<lparr>htval := htval_g g, mtval2 := mtval2_g g\<rparr>))
         else Returned MEM_RET_OK s)
      else Returned MEM_RET_OK s)"

subsection \<open>Second-stage translation\<close>

text \<open>
  The assignments of \<^verbatim>\<open>raise_guest_excep\<close> for one cause: the virtual address and the
  guest-physical address shifted right by two, in \<^verbatim>\<open>stval\<close> and \<^verbatim>\<open>htval\<close> when the cause
  is delegated to supervisor level, in \<^verbatim>\<open>mtval\<close> and \<^verbatim>\<open>mtval2\<close> otherwise.
\<close>

definition guest_tval_write :: "state \<Rightarrow> word_t \<Rightarrow> paddr_t \<Rightarrow> vaddr_t \<Rightarrow> state" where
  "guest_tval_write s ex gpaddr vaddr =
     (if intr_deleg_S s ex then s\<lparr>stval := vaddr, htval := drop_bit 2 gpaddr\<rparr>
      else s\<lparr>mtval := vaddr, mtval2 := drop_bit 2 gpaddr\<rparr>)"

definition raise_guest_excep ::
  "config \<Rightarrow> paddr_t \<Rightarrow> vaddr_t \<Rightarrow> mem_type \<Rightarrow> state \<Rightarrow> unit outcome" where
  "raise_guest_excep cfg gpaddr vaddr type s =
     bind (if guided_exec s \<and> force_raise_exception (execution_guide s)
              \<and> (exception_num (execution_guide s) = EX_IPF
                   \<or> exception_num (execution_guide s) = EX_LPF
                   \<or> exception_num (execution_guide s) = EX_SPF)
           then force_raise_pf cfg vaddr type s else Returned MEM_RET_OK s)
       (\<lambda>_ s1.
          if type = MEM_TYPE_IFETCH then
            Raised EX_IGPF (guest_tval_write s1 EX_IGPF gpaddr vaddr)
          else if type = MEM_TYPE_READ then
            (let ex = (if amo s1 then EX_SGPF else EX_LGPF) in
             Raised ex (guest_tval_write s1 ex gpaddr vaddr))
          else Raised EX_SGPF (guest_tval_write s1 EX_SGPF gpaddr vaddr))"

text \<open>
  The access kind that \<^verbatim>\<open>gpa_stage\<close> and \<^verbatim>\<open>pte_read\<close> pass to \<^verbatim>\<open>paddr_read\<close>.
\<close>

definition pte_read_type :: "mem_type \<Rightarrow> mem_type" where
  "pte_read_type type =
     (if type = MEM_TYPE_IFETCH then MEM_TYPE_IFETCH_READ
      else if type = MEM_TYPE_WRITE then MEM_TYPE_WRITE_READ
      else MEM_TYPE_READ)"

text \<open>
  The loop of \<^verbatim>\<open>gpa_stage\<close>. It is left by \<^verbatim>\<open>break\<close> (or by its condition), after which
  the function raises the guest-page fault, or by one of the two \<^verbatim>\<open>return\<close> statements
  inside it.
\<close>

datatype gwalk = GBreak | GReturn paddr_t

function gpa_walk ::
  "env \<Rightarrow> paddr_t \<Rightarrow> vaddr_t \<Rightarrow> mem_type \<Rightarrow> int \<Rightarrow> word_t \<Rightarrow> state \<Rightarrow> gwalk outcome" where
  "gpa_walk e gpaddr vaddr type level pg_base s =
     (if 0 \<le> level then
        (case paddr_read e (pg_base + GVPNi gpaddr level * PTE_SIZE) 8 (pte_read_type type)
                MODE_S vaddr s of
           Returned pte s1 \<Rightarrow>
             (let pg_base1 = PGBASE (pte_ppn pte) in
              if pte_v pte \<and> \<not> pte_r pte \<and> \<not> pte_w pte \<and> \<not> pte_x pte then
                (if level - 1 < 0 then Returned GBreak s1
                 else gpa_walk e gpaddr vaddr type (level - 1) pg_base1 s1)
              else if \<not> pte_v pte \<or> (\<not> pte_r pte \<and> pte_w pte) then Returned GBreak s1
              else if \<not> pte_u pte then Returned GBreak s1
              else if (if type = MEM_TYPE_IFETCH \<or> hlvx s1 then \<not> pte_x pte
                       else if type = MEM_TYPE_READ
                         then \<not> pte_r pte \<and> \<not> (mxr (mstatus s1) \<and> pte_x pte)
                       else \<not> (pte_r pte \<and> pte_w pte))
                then Returned GBreak s1
              else if 0 < level then
                (let pg_mask = push_bit (VPNiSHFT level) 1 - 1 in
                 if pg_base1 AND pg_mask \<noteq> 0 then Returned (GReturn MEM_RET_FAIL) s1
                 else
                   (let pg_base2 = (pg_base1 AND NOT pg_mask)
                                     OR (gpaddr AND pg_mask AND NOT PGMASK)
                    in Returned (GReturn (pg_base2 OR (gpaddr AND PAGE_MASK))) s1))
              else Returned (GReturn (pg_base1 OR (gpaddr AND PAGE_MASK))) s1)
         | Raised ex s1 \<Rightarrow> Raised ex s1
         | Aborted \<Rightarrow> Aborted)
      else Returned GBreak s)"
  by pat_completeness auto
termination
  by (relation "measure (\<lambda>(e, gpaddr, vaddr, type, level, pg_base, s). nat level)") auto

definition gpa_stage ::
  "env \<Rightarrow> config \<Rightarrow> paddr_t \<Rightarrow> vaddr_t \<Rightarrow> mem_type \<Rightarrow> state \<Rightarrow> paddr_t outcome" where
  "gpa_stage e cfg gpaddr vaddr type s0 =
     (let s = s0\<lparr>pt_level := 0\<rparr> in
      if atp_mode (hgatp s) = 0 then Returned gpaddr s
      else
        bind (if atp_mode (hgatp s) = 9 then
                bind (if gpaddr AND NOT (push_bit 50 1 - 1) \<noteq> 0
                      then raise_guest_excep cfg gpaddr vaddr type s else Returned () s)
                  (\<lambda>_ s1. Returned (4 :: int) s1)
              else if atp_mode (hgatp s) = 8 then
                bind (if gpaddr AND NOT (push_bit 41 1 - 1) \<noteq> 0
                      then raise_guest_excep cfg gpaddr vaddr type s else Returned () s)
                  (\<lambda>_ s1. Returned (3 :: int) s1)
              else Returned (0 :: int) s)
          (\<lambda>max_level s1.
             bind (gpa_walk e gpaddr vaddr type (max_level - 1) (PGBASE (atp_ppn (hgatp s1))) s1)
               (\<lambda>r s2. case r of
                    GReturn pa \<Rightarrow> Returned pa s2
                  | GBreak \<Rightarrow>
                      bind (raise_guest_excep cfg gpaddr vaddr type s2)
                        (\<lambda>_ s3. Returned gpaddr s3))))"

subsection \<open>Page-table walker\<close>

definition pte_read ::
  "env \<Rightarrow> config \<Rightarrow> paddr_t \<Rightarrow> mem_type \<Rightarrow> 32 word \<Rightarrow> vaddr_t \<Rightarrow> state \<Rightarrow> word_t outcome" where
  "pte_read e cfg addr type pmode vaddr s =
     (if CONFIG_SHARE cfg \<and> is_in_mmio e addr then
        (let cause = (if type = MEM_TYPE_IFETCH then EX_IAF
                      else if type = MEM_TYPE_WRITE then EX_SAF else EX_LAF)
         in Raised cause (INTR_TVAL_REG_write s cause (xs_sext cfg vaddr)))
      else paddr_read e addr 8 (pte_read_type type) pmode vaddr s)"

text \<open>
  The head of the body of the loop of \<^verbatim>\<open>ptw\<close>: the address of the entry of \<open>level\<close>
  in the table at \<open>pg_base\<close>, sent through the second stage under virtualization, and the
  entry read from it.
\<close>

definition ptw_fetch ::
  "env \<Rightarrow> config \<Rightarrow> vaddr_t \<Rightarrow> mem_type \<Rightarrow> bool \<Rightarrow> int \<Rightarrow> word_t \<Rightarrow> state
     \<Rightarrow> (paddr_t \<times> word_t) outcome" where
  "ptw_fetch e cfg vaddr type virt level pg_base s =
     bind (if virt
           then gpa_stage e cfg (pg_base + VPNi vaddr level * PTE_SIZE) vaddr type s
           else Returned (pg_base + VPNi vaddr level * PTE_SIZE) s)
       (\<lambda>p_pte s1.
          bind (pte_read e cfg p_pte type MODE_S vaddr s1)
            (\<lambda>pte s2. Returned (p_pte, pte) s2))"

text \<open>
  The loop of \<^verbatim>\<open>ptw\<close>. It ends at \<^verbatim>\<open>break\<close> with a leaf (the level, the entry, the
  page base taken from it and the address it was read from), or at \<^verbatim>\<open>goto bad\<close>. The
  loop condition itself is never false: \<^verbatim>\<open>max_level\<close> is 3 or 4, and the body leaves
  before \<^verbatim>\<open>level\<close> could be tested below 0.
\<close>

datatype pwalk = WalkBad word_t | WalkLeaf int word_t word_t paddr_t

function ptw_walk ::
  "env \<Rightarrow> config \<Rightarrow> vaddr_t \<Rightarrow> mem_type \<Rightarrow> bool \<Rightarrow> int \<Rightarrow> word_t \<Rightarrow> state \<Rightarrow> pwalk outcome"
  where
  "ptw_walk e cfg vaddr type virt level pg_base s =
     (if 0 \<le> level then
        (case ptw_fetch e cfg vaddr type virt level pg_base s of
           Returned (p_pte, pte) s2 \<Rightarrow>
             (let pg_base1 = PGBASE (pte_ppn pte) in
              if \<not> pte_v pte \<or> (\<not> pte_r pte \<and> pte_w pte) then Returned (WalkBad pte) s2
              else if pte_r pte \<or> pte_x pte \<or> pte_pad pte \<noteq> 0
                then Returned (WalkLeaf level pte pg_base1 p_pte) s2
              else if level - 1 < 0 then Returned (WalkBad pte) s2
              else ptw_walk e cfg vaddr type virt (level - 1) pg_base1 s2)
         | Raised ex s2 \<Rightarrow> Raised ex s2
         | Aborted \<Rightarrow> Aborted)
      else Returned (WalkLeaf level 0 pg_base 0) s)"
  by pat_completeness auto
termination
  by (relation "measure (\<lambda>(e, cfg, vaddr, type, virt, level, pg_base, s). nat level)") auto

text \<open>
  The label \<^verbatim>\<open>bad\<close>: \<^verbatim>\<open>check_permission\<close> is called with \<^verbatim>\<open>ok = false\<close>, which
  raises the page fault of the access kind, and \<^verbatim>\<open>MEM_RET_FAIL\<close> is returned after it.
  At the two range checks of \<^verbatim>\<open>ptw\<close> the entry has not been read yet; with
  \<^verbatim>\<open>ok = false\<close> the outcome does not depend on it, and the model passes 0.
\<close>

definition ptw_bad ::
  "config \<Rightarrow> word_t \<Rightarrow> vaddr_t \<Rightarrow> mem_type \<Rightarrow> bool \<Rightarrow> 32 word \<Rightarrow> state \<Rightarrow> paddr_t outcome" where
  "ptw_bad cfg pte vaddr type virt pmode s =
     bind (check_permission cfg pte False vaddr type virt pmode s)
       (\<lambda>_ s1. Returned MEM_RET_FAIL s1)"

text \<open>
  The block \<^verbatim>\<open>#ifndef CONFIG_SHARE\<close> at the end of \<^verbatim>\<open>ptw\<close>: an entry whose accessed
  bit (or, for a write, dirty bit) is clear raises the page fault of the access kind.
\<close>

definition ptw_update_ad ::
  "config \<Rightarrow> word_t \<Rightarrow> vaddr_t \<Rightarrow> mem_type \<Rightarrow> state \<Rightarrow> unit outcome" where
  "ptw_update_ad cfg pte vaddr type s =
     (let is_write = (type = MEM_TYPE_WRITE) in
      if \<not> CONFIG_SHARE cfg \<and> (\<not> pte_a pte \<or> (\<not> pte_d pte \<and> is_write)) then
        (if type = MEM_TYPE_IFETCH then
           (if v s then
              (if intr_deleg_S s EX_IPF then Raised EX_IPF (s\<lparr>vstval := vaddr\<rparr>)
               else Raised EX_IPF (s\<lparr>mtval := vaddr\<rparr>))
            else Raised EX_IPF (INTR_TVAL_REG_write s EX_IPF vaddr))
         else if type = MEM_TYPE_READ then
           (let ex = (if amo s then EX_SPF else EX_LPF) in
            if v s then
              (if intr_deleg_S s ex then Raised ex (s\<lparr>vstval := vaddr\<rparr>)
               else Raised ex (s\<lparr>mtval := vaddr\<rparr>))
            else Raised ex (INTR_TVAL_REG_write s ex vaddr))
         else if type = MEM_TYPE_WRITE then
           (if v s then
              (if intr_deleg_S s EX_SPF then Raised EX_SPF (s\<lparr>vstval := vaddr\<rparr>)
               else Raised EX_SPF (s\<lparr>mtval := vaddr\<rparr>))
            else Raised EX_SPF (INTR_TVAL_REG_write s EX_SPF vaddr))
         else Returned () s)
      else Returned () s)"

text \<open>
  The part of \<^verbatim>\<open>ptw\<close> after the loop has ended with a leaf at \<open>level\<close>: the permission
  check, the superpage alignment check and splice, the second stage under virtualization,
  and the accessed/dirty check.
\<close>

definition ptw_leaf ::
  "env \<Rightarrow> config \<Rightarrow> vaddr_t \<Rightarrow> mem_type \<Rightarrow> bool \<Rightarrow> 32 word \<Rightarrow> int \<Rightarrow> word_t \<Rightarrow> word_t
     \<Rightarrow> state \<Rightarrow> paddr_t outcome" where
  "ptw_leaf e cfg vaddr type virt pmode level pte pg_base s =
     bind (check_permission cfg pte True vaddr type virt pmode s)
       (\<lambda>ok s1.
          if \<not> ok then Returned MEM_RET_FAIL s1
          else
            (let s2 = s1\<lparr>pt_level := level\<rparr>;
                 pg_mask = push_bit (VPNiSHFT level) 1 - 1
             in if 0 < level \<and> pg_base AND pg_mask \<noteq> 0
                then ptw_bad cfg pte vaddr type virt pmode s2
                else
                  (let pg_base1 =
                         (if 0 < level
                          then (pg_base AND NOT pg_mask) OR (vaddr AND pg_mask AND NOT PGMASK)
                          else pg_base)
                   in bind (if virt
                            then bind (gpa_stage e cfg (pg_base1 OR (vaddr AND PAGE_MASK))
                                         vaddr type s2)
                                   (\<lambda>r s3. Returned (r AND NOT PAGE_MASK) s3)
                            else Returned pg_base1 s2)
                        (\<lambda>pg_base2 s3.
                           if virt \<and> pg_base2 = MEM_RET_FAIL then Returned MEM_RET_FAIL s3
                           else bind (ptw_update_ad cfg pte vaddr type s3)
                                  (\<lambda>_ s4. Returned (pg_base2 OR MEM_RET_OK) s4)))))"

text \<open>
  The two range checks at the head of \<^verbatim>\<open>ptw\<close>: the address shifted left and then
  arithmetically right by \<open>64 - n\<close> must be the address itself.
\<close>

definition sext_ok :: "nat \<Rightarrow> vaddr_t \<Rightarrow> bool" where
  "sext_ok n vaddr = (signed_drop_bit (64 - n) (push_bit (64 - n) vaddr) = vaddr)"

text \<open>
  The effective mode and virtualization flag of the walk, as the head of \<^verbatim>\<open>ptw\<close> computes
  them: those of the hart for a fetch; for data accesses those of \<^verbatim>\<open>mstatus.MPP\<close> and
  \<^verbatim>\<open>mstatus.MPV\<close> under \<^verbatim>\<open>MPRV\<close>, and of \<^verbatim>\<open>hstatus.SPVP\<close> with virtualization on
  under \<^verbatim>\<open>hld_st\<close>.
\<close>

definition ptw_mode :: "state \<Rightarrow> mem_type \<Rightarrow> 32 word" where
  "ptw_mode s type =
     (let mode0 = (ucast (mode s) :: 32 word);
          mode1 = (if type \<noteq> MEM_TYPE_IFETCH \<and> mprv (mstatus s)
                   then ucast (mpp (mstatus s)) else mode0)
      in if type \<noteq> MEM_TYPE_IFETCH \<and> hld_st s then ucast (spvp (hstatus s)) else mode1)"

definition ptw_virt :: "state \<Rightarrow> mem_type \<Rightarrow> bool" where
  "ptw_virt s type =
     (let virt0 = v s;
          virt1 = (if type \<noteq> MEM_TYPE_IFETCH \<and> mprv (mstatus s)
                   then mpv (mstatus s) \<and> (ucast (mpp (mstatus s)) :: 32 word) \<noteq> MODE_M
                   else virt0)
      in if type \<noteq> MEM_TYPE_IFETCH \<and> hld_st s then True else virt1)"

definition ptw_root :: "state \<Rightarrow> bool \<Rightarrow> word_t" where
  "ptw_root s virt = (if virt then PGBASE (atp_ppn (vsatp s)) else PGBASE (atp_ppn (satp s)))"

definition ptw_max_level :: "state \<Rightarrow> bool \<Rightarrow> int" where
  "ptw_max_level s virt =
     (if virt then (if atp_mode (vsatp s) = 8 then 3 else 4)
      else (if atp_mode (satp s) = 8 then 3 else 4))"

definition ptw :: "env \<Rightarrow> config \<Rightarrow> vaddr_t \<Rightarrow> mem_type \<Rightarrow> state \<Rightarrow> paddr_t outcome" where
  "ptw e cfg vaddr type s =
     (let virt = ptw_virt s type; pmode = ptw_mode s type in
      if virt \<and> atp_mode (vsatp s) = 0 then
        bind (gpa_stage e cfg vaddr vaddr type s) (\<lambda>r s1. Returned (r AND NOT PAGE_MASK) s1)
      else
        (let pg_base = ptw_root s virt; max_level = ptw_max_level s virt in
         if max_level = 4 \<and> \<not> sext_ok 48 vaddr then ptw_bad cfg 0 vaddr type virt pmode s
         else if max_level = 3 \<and> \<not> sext_ok 39 vaddr
           then ptw_bad cfg 0 vaddr type virt pmode s
         else
           bind (ptw_walk e cfg vaddr type virt (max_level - 1) pg_base s)
             (\<lambda>r s1. case r of
                  WalkBad pte \<Rightarrow> ptw_bad cfg pte vaddr type virt pmode s1
                | WalkLeaf level pte pg_base1 p_pte \<Rightarrow>
                    ptw_leaf e cfg vaddr type virt pmode level pte pg_base1 s1)))"

subsection \<open>The MMU check and the translation entry point\<close>









definition is_cross_page :: "vaddr_t \<Rightarrow> 32 word \<Rightarrow> bool" where
  "is_cross_page vaddr len = ((vaddr AND PAGE_MASK) + scast len > PAGE_SIZE)"

definition isa_mmu_translate ::
  "env \<Rightarrow> config \<Rightarrow> vaddr_t \<Rightarrow> 32 word \<Rightarrow> mem_type \<Rightarrow> state \<Rightarrow> paddr_t outcome" where
  "isa_mmu_translate e cfg vaddr len type s =
     (if is_cross_page vaddr len then Returned MEM_RET_CROSS_PAGE s
      else
        bind (ptw e cfg vaddr type s)
          (\<lambda>ptw_result s1.
             if ptw_result \<noteq> MEM_RET_FAIL then
               bind (force_raise_pf cfg vaddr type s1)
                 (\<lambda>r1 s2.
                    if r1 \<noteq> MEM_RET_OK then Returned MEM_RET_FAIL s2
                    else bind (force_raise_gpf vaddr type s2)
                           (\<lambda>r2 s3.
                              if r2 \<noteq> MEM_RET_OK then Returned MEM_RET_FAIL s3
                              else Returned ptw_result s3))
             else Returned ptw_result s1))"

subsection \<open>Region PMP\<close>

text \<open>
  The constants of the PMP configuration byte, from the CSR header that is not among the
  sources: the permission bits, the two-bit address-mode field and the lock bit, as the
  privileged architecture lays them out; \<^verbatim>\<open>PMP_SHIFT\<close> is 2 (the sectors are 4 bytes).
\<close>

definition PMP_R :: "8 word" where "PMP_R = 0x01"
definition PMP_W :: "8 word" where "PMP_W = 0x02"
definition PMP_X :: "8 word" where "PMP_X = 0x04"
definition PMP_A :: "8 word" where "PMP_A = 0x18"
definition PMP_L :: "8 word" where "PMP_L = 0x80"
definition PMP_TOR :: "8 word" where "PMP_TOR = 0x08"
definition PMP_NA4 :: "8 word" where "PMP_NA4 = 0x10"
definition PMP_NAPOT :: "8 word" where "PMP_NAPOT = 0x18"
definition PMP_SHIFT :: nat where "PMP_SHIFT = 2"

lemmas PMP_defs = PMP_R_def PMP_W_def PMP_X_def PMP_A_def PMP_L_def PMP_TOR_def PMP_NA4_def
  PMP_NAPOT_def PMP_SHIFT_def

text \<open>
  The test of one 4-byte sector at \<open>cur_addr\<close> against entry \<open>i\<close>, with \<open>base\<close> the
  \<^verbatim>\<open>tor\<close> of the entry before it: the body of the inner loop.
\<close>

definition pmp_tor :: "config \<Rightarrow> state \<Rightarrow> nat \<Rightarrow> word_t" where
  "pmp_tor cfg s i = push_bit PMP_SHIFT (pmpaddr s i AND pmp_tor_mask cfg)"

definition pmp_mask :: "config \<Rightarrow> state \<Rightarrow> nat \<Rightarrow> word_t" where
  "pmp_mask cfg s i =
     (let is_na4 = (pmpcfg s i AND PMP_A = PMP_NA4);
          mask0 = push_bit 1 (pmpaddr s i) OR (if is_na4 then 0 else 1) OR NOT (pmp_tor_mask cfg)
      in push_bit PMP_SHIFT (NOT (mask0 AND NOT (mask0 + 1))))"

definition pmp_sector_match :: "config \<Rightarrow> state \<Rightarrow> nat \<Rightarrow> word_t \<Rightarrow> word_t \<Rightarrow> bool" where
  "pmp_sector_match cfg s i base cur_addr =
     (let tor = pmp_tor cfg s i;
          is_tor = (pmpcfg s i AND PMP_A = PMP_TOR);
          napot_match = ((cur_addr XOR tor) AND pmp_mask cfg s i = 0);
          tor_match = (base \<le> cur_addr \<and> cur_addr < tor)
      in if is_tor then tor_match else napot_match)"

text \<open>
  The inner loop \<^verbatim>\<open>for (word_t offset = 0; offset < len; offset += 1 << PMP_SHIFT)\<close>,
  from \<open>offset\<close> on, with the bound \<open>n\<close> the length as an unsigned 64-bit number. It
  returns \<^verbatim>\<open>any_match\<close> and \<^verbatim>\<open>all_match\<close>. The offset is a natural number here; the
  \<^verbatim>\<open>word_t\<close> of the source wraps, and the loop never ends, only for a bound above
  \<open>2 ^ 64 - 4\<close>, which \<open>pmp_entries\<close> below answers with \<open>None\<close>.
\<close>

function pmp_sectors ::
  "config \<Rightarrow> state \<Rightarrow> nat \<Rightarrow> word_t \<Rightarrow> paddr_t \<Rightarrow> nat \<Rightarrow> nat \<Rightarrow> bool \<Rightarrow> bool \<Rightarrow> bool \<times> bool" where
  "pmp_sectors cfg s i base addr n offset any_match all_match =
     (if offset < n then
        (let cur_addr = addr + of_nat offset;
             m = pmp_sector_match cfg s i base cur_addr
         in pmp_sectors cfg s i base addr n (offset + 2 ^ PMP_SHIFT) (any_match \<or> m) (all_match \<and> m))
      else (any_match, all_match))"
  by pat_completeness auto
termination
  by (relation "measure (\<lambda>(cfg, s, i, base, addr, n, offset, a, b). n - offset)")
    (auto simp: PMP_SHIFT_def)

text \<open>
  The loop over the entries, from entry \<open>i\<close> on, with the running \<open>base\<close>; \<open>pmode\<close> is the
  effective mode computed at the head of \<^verbatim>\<open>isa_pmp_check_permission\<close> and \<open>n\<close> the length
  as an unsigned number. \<open>None\<close> stands for the one way the C function does not return: at
  an active entry, a length above \<open>2 ^ 64 - 4\<close> (\<^verbatim>\<open>len\<close> from -3 to -1) keeps the sector
  loop wrapping its offset for ever.
\<close>

function pmp_entries ::
  "config \<Rightarrow> state \<Rightarrow> paddr_t \<Rightarrow> nat \<Rightarrow> mem_type \<Rightarrow> 32 word \<Rightarrow> nat \<Rightarrow> word_t \<Rightarrow> bool option"
  where
  "pmp_entries cfg s addr n type pmode i base =
     (if i < CONFIG_RV_PMP_ACTIVE_NUM cfg then
        (let tor = pmp_tor cfg s i; pcfg = pmpcfg s i in
         if pcfg AND PMP_A \<noteq> 0 then
           (if 2 ^ 64 - 4 < n then None
            else
              (case pmp_sectors cfg s i base addr n 0 False True of
                 (any_match, all_match) \<Rightarrow>
                   if any_match then
                     (if \<not> all_match then Some False
                      else Some ((pmode = MODE_M \<and> pcfg AND PMP_L = 0)
                         \<or> ((type = MEM_TYPE_READ \<or> type = MEM_TYPE_IFETCH_READ
                               \<or> type = MEM_TYPE_WRITE_READ) \<and> pcfg AND PMP_R \<noteq> 0)
                         \<or> (type = MEM_TYPE_WRITE \<and> pcfg AND PMP_W \<noteq> 0)
                         \<or> (type = MEM_TYPE_IFETCH \<and> pcfg AND PMP_X \<noteq> 0)))
                   else pmp_entries cfg s addr n type pmode (i + 1) tor))
         else pmp_entries cfg s addr n type pmode (i + 1) tor)
      else Some (pmode = MODE_M))"
  by pat_completeness auto
termination
  by (relation "measure (\<lambda>(cfg, s, addr, n, type, pmode, i, base).
         CONFIG_RV_PMP_ACTIVE_NUM cfg - i)") auto

text \<open>
  \<^verbatim>\<open>isa_pmp_check_permission(addr, len, type, out_mode)\<close> under \<^verbatim>\<open>CONFIG_RV_PMP_CHECK\<close>.
\<close>

definition isa_pmp_check_permission ::
  "config \<Rightarrow> state \<Rightarrow> paddr_t \<Rightarrow> 32 word \<Rightarrow> mem_type \<Rightarrow> 32 word \<Rightarrow> bool option" where
  "isa_pmp_check_permission cfg s addr len type out_mode =
     (let ifetch = (type = MEM_TYPE_IFETCH);
          pmode = (if out_mode = MODE_M
                   then (ucast (if mprv (mstatus s) \<and> \<not> ifetch
                                then ucast (mpp (mstatus s)) else mode s) :: 32 word)
                   else out_mode)
      in if CONFIG_RV_PMP_ACTIVE_NUM cfg = 0 then Some True
         else pmp_entries cfg s addr (unat (scast len :: 64 word)) type pmode 0 0)"

subsection \<open>Notions the statements about traps and interrupts use\<close>

text \<open>
  The translation modes that pass the assertions of \<^verbatim>\<open>update_mmu_state\<close>: Bare, Sv39
  and, with \<^verbatim>\<open>CONFIG_RV_SV48\<close>, Sv48, in each of \<^verbatim>\<open>satp\<close>, \<^verbatim>\<open>vsatp\<close> and \<^verbatim>\<open>hgatp\<close>.
\<close>

definition atp_mode_legal :: "config \<Rightarrow> 64 word \<Rightarrow> bool" where
  "atp_mode_legal cfg r =
     (atp_mode r = 0 \<or> atp_mode r = 8 \<or> (CONFIG_RV_SV48 cfg \<and> atp_mode r = 9))"

definition atp_modes_legal :: "config \<Rightarrow> state \<Rightarrow> bool" where
  "atp_modes_legal cfg s =
     (atp_mode_legal cfg (satp s) \<and> atp_mode_legal cfg (vsatp s) \<and> atp_mode_legal cfg (hgatp s))"

definition mmu_states_updated :: "state \<Rightarrow> state \<Rightarrow> bool" where
  "mmu_states_updated s s' =
     (s' = s\<lparr>ifetch_mmu_state := ifetch_mmu_state s', data_mmu_state := data_mmu_state s',
              h_mmu_state := h_mmu_state s'\<rparr>)"

text \<open>
  The interrupt query in the words of its description: a cause is pending and individually
  enabled when its bit is set in both \<^verbatim>\<open>mie\<close> and \<^verbatim>\<open>mip\<close>; its target is the machine level
  unless \<^verbatim>\<open>mideleg\<close> delegates it, and then the virtual-supervisor level if \<^verbatim>\<open>hideleg\<close>
  delegates it further; it is globally enabled by the rule of its target, where the
  enable of the virtual-supervisor level is that of the supervisor level read from
  \<^verbatim>\<open>vsstatus\<close>.
\<close>

definition pending_and_enabled :: "state \<Rightarrow> nat \<Rightarrow> bool" where
  "pending_and_enabled s irq = (bit (mie_reg s) irq \<and> bit (mip_reg s) irq)"

datatype trap_target = Machine | Supervisor | VirtualSupervisor

definition intr_target :: "state \<Rightarrow> nat \<Rightarrow> trap_target" where
  "intr_target s irq =
     (if bit (mideleg s) irq
      then (if bit (hideleg s) irq then VirtualSupervisor else Supervisor)
      else Machine)"

definition globally_enabled :: "state \<Rightarrow> nat \<Rightarrow> bool" where
  "globally_enabled s irq =
     (case intr_target s irq of
        Machine \<Rightarrow> mode s < MODE_M \<or> (mode s = MODE_M \<and> mie (mstatus s))
      | Supervisor \<Rightarrow> (mode s = MODE_S \<and> sie (mstatus s)) \<or> mode s < MODE_S \<or> v s
      | VirtualSupervisor \<Rightarrow>
          v s \<and> ((mode s = MODE_S \<and> sie (vsstatus s)) \<or> mode s < MODE_S))"

text \<open>
  The priority order by interrupt number: machine external, software and timer (11, 3, 7),
  supervisor external, software and timer (9, 1, 5), the user ones (8, 0, 4), the
  virtual-supervisor ones (10, 2, 6), the guest external interrupt (12) and, with
  \<^verbatim>\<open>CONFIG_RV_SSCOFPMF\<close>, the counter overflow (13).
\<close>

definition priority_order :: "config \<Rightarrow> nat list" where
  "priority_order cfg =
     [11, 3, 7, 9, 1, 5, 8, 0, 4, 10, 2, 6, 12] @ (if CONFIG_RV_SSCOFPMF cfg then [13] else [])"

definition first_deliverable :: "config \<Rightarrow> state \<Rightarrow> nat option" where
  "first_deliverable cfg s =
     find (\<lambda>irq. pending_and_enabled s irq \<and> globally_enabled s irq) (priority_order cfg)"

subsection \<open>A concrete state and configuration\<close>

text \<open>
  Every register and flag zero: machine-independent starting point of the concrete
  instances below, which set the fields they need.
\<close>

definition status_zero :: status_t where
  "status_zero = \<lparr>sie = False, mie = False, spie = False, mpie = False, spp = 0, mpp = 0,
     mprv = False, sum = False, mxr = False, gva = False, mpv = False\<rparr>"

definition state_zero :: state where
  "state_zero = \<lparr>mode = 0, v = False, amo = False, instr = 0, guided_exec = False,
     execution_guide = \<lparr>force_raise_exception = False, exception_num = 0, mtval_g = 0,
       stval_g = 0, mtval2_g = 0, htval_g = 0, vstval_g = 0\<rparr>,
     mstatus = status_zero, vsstatus = status_zero,
     hstatus = \<lparr>gva_h = False, spv = False, spvp = 0\<rparr>,
     medeleg = 0, mideleg = 0, hedeleg = 0, hideleg = 0, mie_reg = 0, mip_reg = 0,
     satp = 0, vsatp = 0, hgatp = 0,
     mcause = 0, mepc = 0, mtval = 0, mtval2 = 0, mtinst = 0, mtvec = 0,
     scause = 0, sepc = 0, stval = 0, stvec = 0, htval = 0, htinst = 0,
     vscause = 0, vsepc = 0, vstval = 0, vstvec = 0,
     tcontrol_mte = False, tcontrol_mpte = False, hlvx = False, hld_st = False,
     pt_level = 0, ifetch_mmu_state = 0, data_mmu_state = 0, h_mmu_state = 0,
     last_addr = (\<lambda>_. 0), force_count = (\<lambda>_. 0),
     g_last_addr = (\<lambda>_. 0), g_force_count = (\<lambda>_. 0),
     flush_tcache = False, pmpaddr = (\<lambda>_. 0), pmpcfg = (\<lambda>_. 0)\<rparr>"

definition config_zero :: config where
  "config_zero = \<lparr>CONFIG_SHARE = False, CONFIG_USE_XS_ARCH_CSRS = False,
     CONFIG_RV_SV48 = False, CONFIG_AC_SOFT = False, CONFIG_TVAL_EX_II = False,
     CONFIG_RV_SDTRIG = False, CONFIG_RV_SSCOFPMF = False, CONFIG_RV_PMP_ACTIVE_NUM = 0,
     pmp_tor_mask = - 1\<rparr>"

subsection \<open>Notions the statements about translation use\<close>

text \<open>
  The page fault of an access kind as the code raises it: instruction page fault for a
  fetch, load page fault for a read (store/AMO page fault while \<^verbatim>\<open>cpu.amo\<close> is set), and
  store/AMO page fault otherwise.
\<close>

definition pf_cause :: "state \<Rightarrow> mem_type \<Rightarrow> word_t" where
  "pf_cause s type =
     (if type = MEM_TYPE_IFETCH then EX_IPF
      else if type = MEM_TYPE_READ then (if amo s then EX_SPF else EX_LPF)
      else EX_SPF)"

text \<open>
  The trap-value register selected by the delegation target of cause \<open>ex\<close> in state \<open>s\<close>,
  read in state \<open>s'\<close>.
\<close>

definition tval_of_target :: "state \<Rightarrow> word_t \<Rightarrow> state \<Rightarrow> word_t" where
  "tval_of_target s ex s' =
     (if intr_deleg_VS s ex then vstval s'
      else if intr_deleg_S s ex then stval s'
      else mtval s')"

text \<open>
  The rule of the access kind in the words of the description of the permission checker:
  a fetch needs the execute bit, a read the read bit or, when \<^verbatim>\<open>mstatus.MXR\<close> or under
  virtualization \<^verbatim>\<open>vsstatus.MXR\<close> is set, the execute bit, a write the write bit.
\<close>

definition access_rule :: "state \<Rightarrow> word_t \<Rightarrow> mem_type \<Rightarrow> bool \<Rightarrow> bool" where
  "access_rule s pte type virt =
     (if type = MEM_TYPE_IFETCH then pte_x pte
      else if type = MEM_TYPE_READ
        then pte_r pte \<or> ((mxr (mstatus s) \<or> (virt \<and> mxr (vsstatus s))) \<and> pte_x pte)
      else pte_w pte)"

text \<open>The same rule with the exception the code makes while \<^verbatim>\<open>hlvx\<close> is set.\<close>

definition access_rule_hlvx :: "state \<Rightarrow> word_t \<Rightarrow> mem_type \<Rightarrow> bool \<Rightarrow> bool" where
  "access_rule_hlvx s pte type virt =
     (if type = MEM_TYPE_READ \<and> hlvx s then pte_x pte else access_rule s pte type virt)"

text \<open>
  The rule for a user page reached in supervisor mode: \<^verbatim>\<open>SUM\<close> (of \<^verbatim>\<open>vsstatus\<close> under
  virtualization, of \<^verbatim>\<open>mstatus\<close> otherwise) is set and the access is not a fetch.
\<close>

definition user_page_rule :: "state \<Rightarrow> word_t \<Rightarrow> mem_type \<Rightarrow> bool \<Rightarrow> 32 word \<Rightarrow> bool" where
  "user_page_rule s pte type virt pmode =
     (if pte_u pte \<and> pmode = MODE_S
      then (if virt then sum (vsstatus s) else sum (mstatus s)) \<and> type \<noteq> MEM_TYPE_IFETCH
      else True)"




text \<open>
  Physical memory for the concrete instances: a read returns the value the table holds
  for the address (0 where it holds none) and changes nothing; no address is
  memory-mapped I/O.
\<close>

definition env_of_table :: "(paddr_t \<times> word_t) list \<Rightarrow> env" where
  "env_of_table tbl =
     \<lparr>paddr_read = (\<lambda>addr len type pmode vaddr s.
                       Returned (case map_of tbl addr of Some w \<Rightarrow> w | None \<Rightarrow> 0) s),
      is_in_mmio = (\<lambda>addr. False)\<rparr>"

subsection \<open>Notions the statement about the region PMP uses\<close>

text \<open>
  The offsets of the 4-byte sectors of an access of \<open>n\<close> bytes, from \<open>offset\<close> on:
  \<open>offset\<close>, \<open>offset + 4\<close>, ... below \<open>n\<close>.
\<close>

function sector_offsets :: "nat \<Rightarrow> nat \<Rightarrow> nat list" where
  "sector_offsets n offset =
     (if offset < n then offset # sector_offsets n (offset + 4) else [])"
  by pat_completeness auto
termination
  by (relation "measure (\<lambda>(n, offset). n - offset)") auto

text \<open>
  The base of entry \<open>i\<close> is the \<^verbatim>\<open>tor\<close> of the entry before it (0 for entry 0). An entry
  is active when its address-mode field is not off. A sector of the access matches an
  entry by the test of the inner loop at the sector's address.
\<close>

definition pmp_base :: "config \<Rightarrow> state \<Rightarrow> nat \<Rightarrow> word_t" where
  "pmp_base cfg s i = (if i = 0 then 0 else pmp_tor cfg s (i - 1))"

definition pmp_active :: "state \<Rightarrow> nat \<Rightarrow> bool" where
  "pmp_active s i = (pmpcfg s i AND PMP_A \<noteq> 0)"

definition sector_matches :: "config \<Rightarrow> state \<Rightarrow> paddr_t \<Rightarrow> nat \<Rightarrow> nat \<Rightarrow> bool" where
  "sector_matches cfg s addr i offset =
     pmp_sector_match cfg s i (pmp_base cfg s i) (addr + of_nat offset)"

definition some_sector_matches :: "config \<Rightarrow> state \<Rightarrow> paddr_t \<Rightarrow> nat \<Rightarrow> nat \<Rightarrow> bool" where
  "some_sector_matches cfg s addr n i =
     list_ex (sector_matches cfg s addr i) (sector_offsets n 0)"

definition every_sector_matches :: "config \<Rightarrow> state \<Rightarrow> paddr_t \<Rightarrow> nat \<Rightarrow> nat \<Rightarrow> bool" where
  "every_sector_matches cfg s addr n i =
     list_all (sector_matches cfg s addr i) (sector_offsets n 0)"

text \<open>
  No entry before \<open>j\<close> decides the access: each is off or matches no sector of it.
\<close>

definition none_before :: "config \<Rightarrow> state \<Rightarrow> paddr_t \<Rightarrow> nat \<Rightarrow> nat \<Rightarrow> bool" where
  "none_before cfg s addr n j =
     list_all (\<lambda>k. \<not> (pmp_active s k \<and> some_sector_matches cfg s addr n k)) [0..<j]"

text \<open>
  Concrete PMP set-ups with two checked entries and a granule of 4 KiB. In the first,
  entry 0 is the naturally aligned 4 KiB region at \<open>0x1000\<close> with all of R, W and X. In the
  second, entry 0 is the top-of-range region from 0 to \<open>0x4000\<close> with R, and entry 1 is the
  naturally aligned 4 KiB region at \<open>0x1000\<close> with no permission.
\<close>

definition pmp_config :: config where
  "pmp_config = config_zero\<lparr>CONFIG_RV_PMP_ACTIVE_NUM := 2, pmp_tor_mask := - 1024\<rparr>"

definition pmp_state_napot :: state where
  "pmp_state_napot =
     state_zero\<lparr>mode := 3, pmpaddr := (\<lambda>i. if i = 0 then 0x5FF else 0),
       pmpcfg := (\<lambda>i. if i = 0 then 0x1F else 0)\<rparr>"

definition pmp_state_tor_napot :: state where
  "pmp_state_tor_napot =
     state_zero\<lparr>pmpaddr := (\<lambda>i. if i = 0 then 0x1000 else if i = 1 then 0x5FF else 0),
       pmpcfg := (\<lambda>i. if i = 0 then 0x09 else if i = 1 then 0x18 else 0)\<rparr>"

section \<open>Verification\<close>

subsection \<open>Delegation bits and the MMU-state cache\<close>

lemma int_shl1_small: "k < 31 \<Longrightarrow> int_shl1 k = 2 ^ k"
  unfolding int_shl1_def
  apply (rule bit_word_eqI)
  apply (auto simp: bit_simps min_def)
  done

lemma and_int_shl1_bit: "k < 31 \<Longrightarrow> (w AND int_shl1 k = 0) = (\<not> bit w k)"
  by (simp add: int_shl1_small and_exp_eq_0_iff_not_bit)

lemma update_mmu_state_internal_legal:
  "atp_mode_legal cfg (satp s) \<Longrightarrow> update_mmu_state_internal cfg s f \<noteq> None"
  by (auto simp: update_mmu_state_internal_def atp_mode_legal_def Let_def)

lemma update_h_mmu_state_internal_legal:
  "atp_mode_legal cfg (vsatp s) \<Longrightarrow> atp_mode_legal cfg (hgatp s) \<Longrightarrow>
   update_h_mmu_state_internal cfg s f \<noteq> None"
  by (auto simp: update_h_mmu_state_internal_def atp_mode_legal_def Let_def)

lemma update_mmu_state_outcome:
  "case update_mmu_state cfg s of
     Returned b s' \<Rightarrow> mmu_states_updated s s'
   | Raised ex s' \<Rightarrow> False
   | Aborted \<Rightarrow> \<not> atp_modes_legal cfg s"
proof (cases "update_mmu_state_internal cfg s True")
  case None
  then show ?thesis
    using update_mmu_state_internal_legal[of cfg s True]
    by (auto simp: update_mmu_state_def atp_modes_legal_def)
next
  case (Some i)
  let ?s1 = "s\<lparr>ifetch_mmu_state := i\<rparr>"
  show ?thesis
  proof (cases "update_mmu_state_internal cfg ?s1 False")
    case None
    then show ?thesis
      using Some update_mmu_state_internal_legal[of cfg ?s1 False]
      by (auto simp: update_mmu_state_def atp_modes_legal_def)
  next
    case d: (Some d)
    let ?s2 = "?s1\<lparr>data_mmu_state := d\<rparr>"
    show ?thesis
    proof (cases "update_h_mmu_state_internal cfg ?s2 False")
      case None
      then show ?thesis
        using Some d update_h_mmu_state_internal_legal[of cfg ?s2 False]
        by (auto simp: update_mmu_state_def atp_modes_legal_def)
    next
      case h: (Some h)
      then show ?thesis
        using Some d by (simp add: update_mmu_state_def mmu_states_updated_def)
    qed
  qed
qed

lemma bind_update_mmu_state:
  assumes "\<And>i d h. Q (f (t\<lparr>ifetch_mmu_state := i, data_mmu_state := d, h_mmu_state := h\<rparr>))
                       (t\<lparr>ifetch_mmu_state := i, data_mmu_state := d, h_mmu_state := h\<rparr>)"
    and "atp_modes_legal cfg s \<Longrightarrow> atp_modes_legal cfg t"
  shows "case bind (update_mmu_state cfg t) (\<lambda>_ s9. Returned (f s9) s9) of
           Returned pc s' \<Rightarrow> Q pc s'
         | Raised ex s' \<Rightarrow> False
         | Aborted \<Rightarrow> \<not> atp_modes_legal cfg s"
proof (cases "update_mmu_state cfg t")
  case (Returned b s')
  then have "mmu_states_updated t s'"
    using update_mmu_state_outcome[where cfg=cfg and s=t] by simp
  then obtain i d h where
    "s' = t\<lparr>ifetch_mmu_state := i, data_mmu_state := d, h_mmu_state := h\<rparr>"
    unfolding mmu_states_updated_def by blast
  then show ?thesis using Returned assms(1) by (simp add: bind_def)
next
  case (Raised ex s')
  then show ?thesis using update_mmu_state_outcome[where cfg=cfg and s=t] by simp
next
  case Aborted
  then show ?thesis using update_mmu_state_outcome[where cfg=cfg and s=t] assms(2) by (auto simp: bind_def)
qed

lemma intr_deleg_hld_st [simp]:
  "intr_deleg_S (s\<lparr>hld_st := b\<rparr>) NO = intr_deleg_S s NO"
  "intr_deleg_VS (s\<lparr>hld_st := b\<rparr>) NO = intr_deleg_VS s NO"
  by (simp_all add: intr_deleg_S_def intr_deleg_VS_def)

lemma raise_intr_VS_outcome:
  "case raise_intr_VS cfg s NO epc of
     Returned pc s' \<Rightarrow>
       vscause s' = (if NO AND INTR_BIT \<noteq> 0 then ((NO AND NOT INTR_BIT) - 1) OR INTR_BIT else NO)
       \<and> vsepc s' = epc \<and> v s' \<and> mode s' = MODE_S
       \<and> pc = get_trap_pc (vstvec s) (vscause s')
       \<and> spp (vsstatus s') = ucast (mode s) \<and> spie (vsstatus s') = sie (vsstatus s)
       \<and> \<not> sie (vsstatus s')
       \<and> scause s' = scause s \<and> sepc s' = sepc s \<and> stval s' = stval s
       \<and> mcause s' = mcause s \<and> mepc s' = mepc s \<and> mtval s' = mtval s
       \<and> mstatus s' = mstatus s \<and> hstatus s' = hstatus s
   | Raised ex s' \<Rightarrow> False
   | Aborted \<Rightarrow> \<not> atp_modes_legal cfg s"
  apply (simp add: raise_intr_VS_def Let_def)
  apply (intro conjI impI)
  apply (rule bind_update_mmu_state; simp add: atp_modes_legal_def)+
  done

lemma raise_intr_S_outcome:
  "case raise_intr_S cfg s ht NO epc of
     Returned pc s' \<Rightarrow>
       scause s' = NO \<and> sepc s' = epc \<and> \<not> v s' \<and> mode s' = MODE_S
       \<and> pc = get_trap_pc (stvec s) NO
       \<and> mcause s' = mcause s \<and> mepc s' = mepc s \<and> mtval s' = mtval s
       \<and> mpp (mstatus s') = mpp (mstatus s) \<and> mpie (mstatus s') = mpie (mstatus s)
       \<and> mie (mstatus s') = mie (mstatus s)
       \<and> vscause s' = vscause s \<and> vsepc s' = vsepc s \<and> vstval s' = vstval s
       \<and> vsstatus s' = vsstatus s
   | Raised ex s' \<Rightarrow> False
   | Aborted \<Rightarrow> \<not> atp_modes_legal cfg s"
  apply (simp add: raise_intr_S_def Let_def)
  apply (intro conjI impI)
  apply (rule bind_update_mmu_state; simp add: atp_modes_legal_def)+
  done

lemma raise_intr_M_outcome:
  "case raise_intr_M cfg s ht NO epc of
     Returned pc s' \<Rightarrow>
       mcause s' = NO \<and> mepc s' = epc \<and> \<not> v s' \<and> mode s' = MODE_M
       \<and> pc = get_trap_pc (mtvec s) NO
       \<and> scause s' = scause s \<and> sepc s' = sepc s \<and> stval s' = stval s
       \<and> spp (mstatus s') = spp (mstatus s) \<and> spie (mstatus s') = spie (mstatus s)
       \<and> sie (mstatus s') = sie (mstatus s)
       \<and> vscause s' = vscause s \<and> vsepc s' = vsepc s \<and> vstval s' = vstval s
       \<and> vsstatus s' = vsstatus s \<and> hstatus s' = hstatus s
   | Raised ex s' \<Rightarrow> False
   | Aborted \<Rightarrow> \<not> atp_modes_legal cfg s"
  apply (simp add: raise_intr_M_def Let_def)
  apply (intro conjI impI)
  apply (rule bind_update_mmu_state; simp add: atp_modes_legal_def)+
  done

subsection \<open>Outcomes and loops\<close>

declare gpa_walk.simps [simp del]
declare ptw_walk.simps [simp del]
declare pmp_sectors.simps [simp del]
declare pmp_entries.simps [simp del]
declare sector_offsets.simps [simp del]

lemma bind_simps [simp]:
  "bind (Returned x s) f = f x s"
  "bind (Raised ex s) f = Raised ex s"
  "bind Aborted f = Aborted"
  by (simp_all add: bind_def)

text \<open>The fields of the concrete state and configuration, and what memory tables read.\<close>

lemma status_zero_simps [simp]:
  "sie status_zero = False" "mie status_zero = False" "spie status_zero = False"
  "mpie status_zero = False" "spp status_zero = 0" "mpp status_zero = 0"
  "mprv status_zero = False" "sum status_zero = False" "mxr status_zero = False"
  "gva status_zero = False" "mpv status_zero = False"
  by (simp_all add: status_zero_def)

lemma state_zero_simps [simp]:
  "mode state_zero = 0" "v state_zero = False" "amo state_zero = False" "instr state_zero = 0"
  "guided_exec state_zero = False"
  "mstatus state_zero = status_zero" "vsstatus state_zero = status_zero"
  "spvp (hstatus state_zero) = 0"
  "medeleg state_zero = 0" "mideleg state_zero = 0" "hedeleg state_zero = 0"
  "hideleg state_zero = 0" "mie_reg state_zero = 0" "mip_reg state_zero = 0"
  "satp state_zero = 0" "vsatp state_zero = 0" "hgatp state_zero = 0"
  "mcause state_zero = 0" "mepc state_zero = 0" "mtval state_zero = 0" "mtval2 state_zero = 0"
  "scause state_zero = 0" "sepc state_zero = 0" "stval state_zero = 0" "htval state_zero = 0"
  "vscause state_zero = 0" "vsepc state_zero = 0" "vstval state_zero = 0"
  "hlvx state_zero = False" "hld_st state_zero = False" "pt_level state_zero = 0"
  "ifetch_mmu_state state_zero = 0" "data_mmu_state state_zero = 0" "h_mmu_state state_zero = 0"
  "pmpaddr state_zero = (\<lambda>_. 0)" "pmpcfg state_zero = (\<lambda>_. 0)"
  by (simp_all add: state_zero_def)

lemma config_zero_simps [simp]:
  "CONFIG_SHARE config_zero = False" "CONFIG_USE_XS_ARCH_CSRS config_zero = False"
  "CONFIG_RV_SV48 config_zero = False" "CONFIG_AC_SOFT config_zero = False"
  "CONFIG_TVAL_EX_II config_zero = False" "CONFIG_RV_SDTRIG config_zero = False"
  "CONFIG_RV_SSCOFPMF config_zero = False" "CONFIG_RV_PMP_ACTIVE_NUM config_zero = 0"
  "pmp_tor_mask config_zero = - 1"
  by (simp_all add: config_zero_def)

lemma env_of_table_simps [simp]:
  "paddr_read (env_of_table tbl) addr len type pmode vaddr s
     = Returned (case map_of tbl addr of Some w \<Rightarrow> w | None \<Rightarrow> 0) s"
  "is_in_mmio (env_of_table tbl) addr = False"
  by (simp_all add: env_of_table_def)

lemma xs_sext_config_zero [simp]: "xs_sext config_zero vaddr = vaddr"
  by (simp add: xs_sext_def)

lemmas walk_defs = VPNi_def GVPNi_def VPNiSHFT_def PGSHFT_def PGBASE_def PGMASK_def
  PTE_SIZE_def VPNMASK_def GPVPNMASK_def PAGE_MASK_def MEM_RET_OK_def MEM_RET_FAIL_def
  atp_mode_def atp_ppn_def mask_eq_exp_minus_1 pte_read_type_def


subsection \<open>Word facts\<close>

lemma and_not_of_and_zero: "(x::'a::len word) AND m = 0 \<Longrightarrow> x AND NOT m = x"
proof (rule bit_word_eqI)
  fix n assume z: "x AND m = 0" and n: "n < LENGTH('a)"
  have "\<not> bit (x AND m) n" using z by simp
  then show "bit (x AND NOT m) n = bit x n" using n by (auto simp: bit_and_iff bit_not_iff)
qed





lemma sext_ok_canonical:
  fixes va :: "64 word"
  assumes n: "0 < n" "n \<le> 64"
  shows "(signed_drop_bit (64 - n) (push_bit (64 - n) va) = va) = (signed_take_bit (n - 1) va = va)"
proof -
  have "signed_drop_bit (64 - n) (push_bit (64 - n) va) = signed_take_bit (n - 1) va"
  proof (rule bit_word_eqI)
    fix i assume i: "i < LENGTH(64)"
    show "bit (signed_drop_bit (64 - n) (push_bit (64 - n) va)) i = bit (signed_take_bit (n - 1) va) i"
    proof (cases "i < n")
      case True
      then have m: "min (n - 1) i = i" by simp
      have "bit (signed_drop_bit (64 - n) (push_bit (64 - n) va)) i
              = bit (push_bit (64 - n) va) (i + (64 - n))"
        using True i n by (simp add: bit_signed_drop_bit_iff add.commute)
      also have "\<dots> = bit va i"
      proof -
        have "64 - n \<le> i + (64 - n)" "i + (64 - n) < 64" "i + (64 - n) - (64 - n) = i"
          using True n by arith+
        then show ?thesis by (simp add: bit_push_bit_iff)
      qed
      finally show ?thesis using i m by (simp add: bit_signed_take_bit_iff)
    next
      case False
      then have m: "min (n - 1) i = n - 1" by simp
      have "bit (signed_drop_bit (64 - n) (push_bit (64 - n) va)) i
              = bit (push_bit (64 - n) va) 63"
        using False i n by (simp add: bit_signed_drop_bit_iff)
      also have "\<dots> = bit va (n - 1)"
      proof -
        have "63 - (64 - n) = n - 1" "64 - n \<le> 63" using n by arith+
        then show ?thesis by (simp add: bit_push_bit_iff)
      qed
      finally show ?thesis using i m by (simp add: bit_signed_take_bit_iff)
    qed
  qed
  then show ?thesis by simp
qed

lemma push1_minus1: "push_bit n 1 - 1 = (mask n :: 'a::len word)"
  by (simp add: mask_eq_exp_minus_1 push_bit_eq_mult)

lemma splice_bits:
  fixes pg_base vaddr :: "64 word"
  assumes z: "pg_base AND mask n = 0"
  shows "bit (pg_base OR (vaddr AND mask n AND NOT (mask 12))) i
           = (if i < n then 12 \<le> i \<and> bit vaddr i else bit pg_base i)"
proof (cases "i < 64")
  case True
  have "\<not> bit (pg_base AND mask n) i" using z by simp
  then have p: "i < n \<Longrightarrow> \<not> bit pg_base i" using True by (simp add: bit_and_iff bit_mask_iff)
  show ?thesis
  proof (cases "i < n")
    case n: True
    then show ?thesis
      using True p by (auto simp: bit_or_iff bit_and_iff bit_not_iff bit_mask_iff not_less)
  next
    case n: False
    then show ?thesis
      using True by (simp add: bit_or_iff bit_and_iff bit_not_iff bit_mask_iff)
  qed
next
  case False
  then have "\<not> bit x i" for x :: "64 word" by (auto dest: bit_imp_le_length)
  then show ?thesis by simp
qed

subsection \<open>Trap delegation\<close>



text \<open>
  Claim C10. When \<^verbatim>\<open>raise_intr\<close> takes the trap at the machine level (the cause is
  delegated neither to the supervisor nor to the virtual-supervisor level), it leaves
  \<^verbatim>\<open>scause\<close>, \<^verbatim>\<open>sepc\<close>, \<^verbatim>\<open>stval\<close>, the fields \<^verbatim>\<open>SPP\<close>, \<^verbatim>\<open>SPIE\<close> and \<^verbatim>\<open>SIE\<close>,
  \<^verbatim>\<open>vscause\<close>, \<^verbatim>\<open>vsepc\<close> and \<^verbatim>\<open>vstval\<close> unchanged; when it takes the trap at the
  supervisor or virtual-supervisor level, it leaves \<^verbatim>\<open>mcause\<close>, \<^verbatim>\<open>mepc\<close> and the fields
  \<^verbatim>\<open>MPP\<close>, \<^verbatim>\<open>MPIE\<close> and \<^verbatim>\<open>MIE\<close> unchanged, and the trap registers of the other one of
  these two levels as well. \<^verbatim>\<open>raise_intr\<close> returns whenever the translation modes are
  legal, and never leaves through an exception.
\<close>

theorem raise_intr_frame:
  "case raise_intr cfg s NO epc of
     Returned pc s' \<Rightarrow>
       (if intr_deleg_VS s NO then
          mode s' = MODE_S \<and> v s'
          \<and> mcause s' = mcause s \<and> mepc s' = mepc s \<and> mpp (mstatus s') = mpp (mstatus s)
          \<and> mpie (mstatus s') = mpie (mstatus s) \<and> mie (mstatus s') = mie (mstatus s)
          \<and> scause s' = scause s \<and> sepc s' = sepc s \<and> stval s' = stval s
          \<and> spp (mstatus s') = spp (mstatus s) \<and> spie (mstatus s') = spie (mstatus s)
          \<and> sie (mstatus s') = sie (mstatus s)
        else if intr_deleg_S s NO then
          mode s' = MODE_S \<and> \<not> v s'
          \<and> mcause s' = mcause s \<and> mepc s' = mepc s \<and> mpp (mstatus s') = mpp (mstatus s)
          \<and> mpie (mstatus s') = mpie (mstatus s) \<and> mie (mstatus s') = mie (mstatus s)
          \<and> vscause s' = vscause s \<and> vsepc s' = vsepc s \<and> vstval s' = vstval s
          \<and> vsstatus s' = vsstatus s
        else
          mode s' = MODE_M \<and> \<not> v s'
          \<and> scause s' = scause s \<and> sepc s' = sepc s \<and> stval s' = stval s
          \<and> spp (mstatus s') = spp (mstatus s) \<and> spie (mstatus s') = spie (mstatus s)
          \<and> sie (mstatus s') = sie (mstatus s)
          \<and> vscause s' = vscause s \<and> vsepc s' = vsepc s \<and> vstval s' = vstval s
          \<and> vsstatus s' = vsstatus s)
   | Raised ex s' \<Rightarrow> False
   | Aborted \<Rightarrow> \<not> atp_modes_legal cfg s"
proof -
  let ?t = "s\<lparr>hld_st := False\<rparr>"
  have l: "atp_modes_legal cfg ?t = atp_modes_legal cfg s"
    by (simp add: atp_modes_legal_def)
  have f: "mcause ?t = mcause s" "mepc ?t = mepc s" "mstatus ?t = mstatus s"
    "scause ?t = scause s" "sepc ?t = sepc s" "stval ?t = stval s"
    "vscause ?t = vscause s" "vsepc ?t = vsepc s" "vstval ?t = vstval s"
    "vsstatus ?t = vsstatus s"
    by simp_all
  show ?thesis
  proof (cases "intr_deleg_VS s NO")
    case True
    then have e: "raise_intr cfg s NO epc = raise_intr_VS cfg ?t NO epc"
      by (simp add: raise_intr_def Let_def)
    note O = raise_intr_VS_outcome[where cfg=cfg and s="?t" and NO=NO and epc=epc]
    show ?thesis
      unfolding e using O True
      by (cases "raise_intr_VS cfg ?t NO epc") (simp_all add: l f)
  next
    case False
    show ?thesis
    proof (cases "intr_deleg_S s NO")
      case True
      then have e: "raise_intr cfg s NO epc = raise_intr_S cfg ?t (hld_st s) NO epc"
        using False by (simp add: raise_intr_def Let_def)
      note O = raise_intr_S_outcome[where cfg=cfg and s="?t" and NO=NO and epc=epc
          and ht="hld_st s"]
      show ?thesis
        unfolding e using O True False
        by (cases "raise_intr_S cfg ?t (hld_st s) NO epc") (simp_all add: l f)
    next
      case F: False
      then have e: "raise_intr cfg s NO epc = raise_intr_M cfg ?t (hld_st s) NO epc"
        using False by (simp add: raise_intr_def Let_def)
      note O = raise_intr_M_outcome[where cfg=cfg and s="?t" and NO=NO and epc=epc
          and ht="hld_st s"]
      show ?thesis
        unfolding e using O F False
        by (cases "raise_intr_M cfg ?t (hld_st s) NO epc") (simp_all add: l f)
    qed
  qed
qed

text \<open>
  An instance: an illegal instruction in supervisor mode with nothing delegated is taken at
  the machine level and keeps the supervisor trap registers.
\<close>

theorem raise_intr_frame_witness:
  "(case raise_intr config_zero (state_zero\<lparr>mode := 1, scause := 7, sepc := 0x100\<rparr>) EX_II 0x80001000 of
      Returned pc s' \<Rightarrow> mode s' = MODE_M \<and> scause s' = 7 \<and> sepc s' = 0x100
    | Raised ex s' \<Rightarrow> False
    | Aborted \<Rightarrow> False)"
proof -
  let ?s = "state_zero\<lparr>mode := 1, scause := 7, sepc := 0x100\<rparr>"
  have d: "\<not> intr_deleg_S ?s EX_II" "\<not> intr_deleg_VS ?s EX_II"
    by (simp_all add: intr_deleg_S_def intr_deleg_VS_def state_zero_def Let_def)
  have l: "atp_modes_legal config_zero ?s"
    by (simp add: atp_modes_legal_def atp_mode_legal_def atp_mode_def state_zero_def)
  have f: "scause ?s = 7" "sepc ?s = 0x100" by simp_all
  note T = raise_intr_frame[where cfg=config_zero and s="?s" and NO=EX_II and epc="0x80001000"]
  show ?thesis
  proof (cases "raise_intr config_zero ?s EX_II 0x80001000")
    case (Returned pc s')
    then show ?thesis using T d by (simp add: f)
  next
    case (Raised ex s')
    then show ?thesis using T by simp
  next
    case Aborted
    then show ?thesis using T l by simp
  qed
qed

subsection \<open>Pending interrupts\<close>

lemma global_enable_eq:
  "irq < 31 \<Longrightarrow>
   (if hideleg s AND int_shl1 irq \<noteq> 0 \<and> mideleg s AND int_shl1 irq \<noteq> 0
      then (v s \<and> mode s = MODE_S \<and> sie (vsstatus s)) \<or> (v s \<and> mode s < MODE_S)
    else if mideleg s AND int_shl1 irq \<noteq> 0
      then (mode s = MODE_S \<and> sie (mstatus s)) \<or> mode s < MODE_S \<or> v s
    else (mode s = MODE_M \<and> mie (mstatus s)) \<or> mode s < MODE_M)
   = globally_enabled s irq"
  by (auto simp: and_int_shl1_bit globally_enabled_def intr_target_def)

lemma pending_eq:
  "irq < 31 \<Longrightarrow>
   ((mie_reg s AND mip_reg s) AND int_shl1 irq \<noteq> 0) = pending_and_enabled s irq"
  by (simp add: and_int_shl1_bit pending_and_enabled_def bit_and_iff)

lemma query_loop_find:
  "list_all (\<lambda>irq. irq < 31) xs \<Longrightarrow>
   query_loop s (mie_reg s AND mip_reg s) xs =
     (case find (\<lambda>irq. pending_and_enabled s irq \<and> globally_enabled s irq) xs of
        None \<Rightarrow> INTR_EMPTY | Some irq \<Rightarrow> of_nat irq OR INTR_BIT)"
proof (induction xs)
  case Nil
  then show ?case by simp
next
  case (Cons irq xs)
  then have k: "irq < 31" and r: "list_all (\<lambda>irq. irq < 31) xs" by simp_all
  note IH = Cons.IH[OF r]
  show ?case
  proof (cases "pending_and_enabled s irq")
    case True
    then have p: "(mie_reg s AND mip_reg s) AND int_shl1 irq \<noteq> 0"
      using pending_eq[OF k, of s] by simp
    show ?thesis
    proof (cases "globally_enabled s irq")
      case T: True
      show ?thesis
        using True T p global_enable_eq[OF k, of s]
        by (simp add: Let_def)
    next
      case F: False
      show ?thesis
        using True F p global_enable_eq[OF k, of s] IH
        by (simp add: Let_def)
    qed
  next
    case False
    then have p: "(mie_reg s AND mip_reg s) AND int_shl1 irq = 0"
      using pending_eq[OF k, of s] by simp
    show ?thesis using False p IH by simp
  qed
qed

lemma priority_eq: "priority cfg = priority_order cfg"
  by (simp add: priority_def priority_order_def IRQ_defs)

lemma priority_small: "list_all (\<lambda>irq. irq < 31) (priority_order cfg)"
  by (simp add: priority_order_def)

lemma no_pending_find:
  assumes z: "mie_reg s AND mip_reg s = 0"
  shows "find (\<lambda>irq. pending_and_enabled s irq \<and> Q irq) xs = None"
proof -
  have "\<not> pending_and_enabled s irq" for irq
  proof
    assume "pending_and_enabled s irq"
    then have "bit (mie_reg s AND mip_reg s) irq"
      by (simp add: pending_and_enabled_def bit_and_iff)
    then show False by (simp add: z)
  qed
  then show ?thesis by (simp add: find_None_iff)
qed

text \<open>
  Claim C8. \<^verbatim>\<open>isa_query_intr\<close> scans the fixed priority order (machine external, software,
  timer; supervisor external, software, timer; the user ones; then the virtual-supervisor
  ones, the guest external interrupt and, when configured, the counter overflow) and
  returns the first cause, with the interrupt bit set, that is pending and enabled in
  \<^verbatim>\<open>mie\<close> and \<^verbatim>\<open>mip\<close> and globally enabled by the rule of its target: at the machine
  level, a mode below machine or machine mode with \<^verbatim>\<open>mstatus.MIE\<close>; delegated to the
  supervisor level, supervisor mode with \<^verbatim>\<open>mstatus.SIE\<close>, a mode below supervisor, or
  guest mode; delegated to the virtual-supervisor level, guest mode with the enable of
  that level (supervisor mode with \<^verbatim>\<open>vsstatus.SIE\<close>, or a mode below). Without such a
  cause it returns \<^verbatim>\<open>INTR_EMPTY\<close>.
\<close>

theorem isa_query_intr_first_deliverable:
  "isa_query_intr cfg s =
     (case first_deliverable cfg s of
        None \<Rightarrow> INTR_EMPTY
      | Some irq \<Rightarrow> of_nat irq OR INTR_BIT)"
proof (cases "mie_reg s AND mip_reg s = 0")
  case True
  then show ?thesis
    by (simp add: isa_query_intr_def first_deliverable_def no_pending_find)
next
  case False
  have "query_loop s (mie_reg s AND mip_reg s) (priority cfg) =
     (case first_deliverable cfg s of
        None \<Rightarrow> INTR_EMPTY
      | Some irq \<Rightarrow> of_nat irq OR INTR_BIT)"
    unfolding priority_eq first_deliverable_def
    by (rule query_loop_find[OF priority_small])
  then show ?thesis
    using False by (simp only: isa_query_intr_def Let_def if_False)
qed

text \<open>
  An instance: the supervisor timer interrupt, pending, enabled and delegated by
  \<^verbatim>\<open>mideleg\<close>, in user mode.
\<close>

theorem isa_query_intr_first_deliverable_witness:
  "isa_query_intr config_zero (state_zero\<lparr>mie_reg := 0x20, mip_reg := 0x20, mideleg := 0x20\<rparr>)
     = 5 OR INTR_BIT"
proof -
  let ?s = "state_zero\<lparr>mie_reg := 0x20, mip_reg := 0x20, mideleg := 0x20\<rparr>"
  have g: "globally_enabled ?s 5"
    by (simp add: globally_enabled_def intr_target_def state_zero_def MODE_defs)
  have "first_deliverable config_zero ?s = Some 5"
    by (simp add: first_deliverable_def priority_order_def config_zero_def pending_and_enabled_def g)
  then show ?thesis
    using isa_query_intr_first_deliverable[of config_zero ?s] by simp
qed

subsection \<open>The translation entry point\<close>

text \<open>
  Claim C9. For every virtual address and length with
  \<^verbatim>\<open>(vaddr & PAGE_MASK) + len > PAGE_SIZE\<close>, \<^verbatim>\<open>isa_mmu_translate\<close> returns
  \<^verbatim>\<open>MEM_RET_CROSS_PAGE\<close> at once: whatever the memory, the configuration and the access
  kind, the call returns (it raises nothing) and the state is the one it was called in.
\<close>

theorem isa_mmu_translate_cross_page:
  assumes "(vaddr AND PAGE_MASK) + scast len > PAGE_SIZE"
  shows "isa_mmu_translate e cfg vaddr len type s = Returned MEM_RET_CROSS_PAGE s"
  using assms by (simp add: isa_mmu_translate_def is_cross_page_def)

text \<open>An instance: four bytes at offset \<open>0xffe\<close> of a page.\<close>

theorem isa_mmu_translate_cross_page_witness:
  "((0xffe :: 64 word) AND PAGE_MASK) + scast (4 :: 32 word) > PAGE_SIZE
   \<and> isa_mmu_translate (env_of_table []) config_zero 0xffe 4 MEM_TYPE_READ state_zero
       = Returned MEM_RET_CROSS_PAGE state_zero"
proof -
  have h: "((0xffe :: 64 word) AND PAGE_MASK) + scast (4 :: 32 word) > PAGE_SIZE"
    by (simp add: PAGE_MASK_def PAGE_SIZE_def)
  show ?thesis
    using h isa_mmu_translate_cross_page[OF h, of "env_of_table []" config_zero MEM_TYPE_READ state_zero]
    by simp
qed

subsection \<open>Permission checker\<close>

lemma INTR_TVAL_REG_write_target:
  "tval_of_target s ex (INTR_TVAL_REG_write s ex val) = val"
  "tval_of_target s ex ((INTR_TVAL_REG_write s ex val)\<lparr>amo := b\<rparr>) = val"
  by (simp_all add: tval_of_target_def INTR_TVAL_REG_write_def)

text \<open>
  Claim C1, as amended. For a leaf entry the walker reached (\<^verbatim>\<open>ok = true\<close>),
  \<^verbatim>\<open>check_permission\<close> permits the access only if the entry is valid, its reserved
  high bits are zero, and the rule of the access kind holds: a fetch needs the execute bit;
  a read needs the read bit, or the execute bit when \<^verbatim>\<open>mstatus.MXR\<close> or, under
  virtualization, \<^verbatim>\<open>vsstatus.MXR\<close> is set, except that while \<^verbatim>\<open>hlvx\<close> is set a read needs
  the execute bit and nothing else; a write needs the write bit; and a user page reached in
  supervisor mode needs \<^verbatim>\<open>SUM\<close> (of \<^verbatim>\<open>vsstatus\<close> under virtualization) and an access
  other than a fetch. When it does not permit the access it raises the page fault of the
  access kind (for a read while \<^verbatim>\<open>cpu.amo\<close> is set, the store/AMO page fault) with the
  faulting address (sign-extended from the translation width under
  \<^verbatim>\<open>CONFIG_USE_XS_ARCH_CSRS\<close>) in the trap-value register of the delegation target of that
  cause. It stops at an assertion only for a mode other than user and supervisor, or for a
  refused fetch while \<^verbatim>\<open>cpu.amo\<close> is set.
\<close>

theorem check_permission_rule:
  "case check_permission cfg pte True vaddr type virt pmode s of
     Returned b s' \<Rightarrow>
       b \<and> s' = s \<and> pte_v pte \<and> pte_pad pte = 0
       \<and> access_rule_hlvx s pte type virt \<and> user_page_rule s pte type virt pmode
   | Raised ex s' \<Rightarrow> ex = pf_cause s type \<and> tval_of_target s ex s' = xs_sext cfg vaddr
   | Aborted \<Rightarrow> (type = MEM_TYPE_IFETCH \<and> amo s) \<or> \<not> (pmode = MODE_U \<or> pmode = MODE_S)"
  by (auto simp: check_permission_def Let_def pf_cause_def INTR_TVAL_REG_write_target
      access_rule_hlvx_def access_rule_def user_page_rule_def)

text \<open>
  An instance: a fetch in supervisor mode from a valid, readable, non-executable page, with
  instruction page faults delegated to the supervisor level, raises the instruction page
  fault with the address in \<^verbatim>\<open>stval\<close>.
\<close>

theorem check_permission_rule_witness:
  "(case check_permission config_zero 0x200000C3 True 0x10000000 MEM_TYPE_IFETCH False MODE_S
           (state_zero\<lparr>mode := 1, medeleg := 0x1000\<rparr>) of
      Returned b s' \<Rightarrow> False
    | Raised ex s' \<Rightarrow> ex = EX_IPF \<and> stval s' = 0x10000000
    | Aborted \<Rightarrow> False)"
proof -
  let ?s = "state_zero\<lparr>mode := 1, medeleg := 0x1000\<rparr>"
  have x: "\<not> pte_x 0x200000C3" by (simp add: pte_x_def)
  have a: "\<not> amo ?s" by (simp add: state_zero_def)
  have xs: "xs_sext config_zero 0x10000000 = 0x10000000"
    by (simp add: xs_sext_def config_zero_def)
  have d: "intr_deleg_S ?s EX_IPF" "\<not> intr_deleg_VS ?s EX_IPF"
    by (simp_all add: intr_deleg_S_def intr_deleg_VS_def Let_def EX_defs INTR_BIT_def
        int_shl1_small state_zero_def MODE_defs)
  note T = check_permission_rule[where cfg=config_zero and pte="0x200000C3" and vaddr="0x10000000"
      and type=MEM_TYPE_IFETCH and virt=False and pmode=MODE_S and s="?s"]
  show ?thesis
  proof (cases "check_permission config_zero 0x200000C3 True 0x10000000 MEM_TYPE_IFETCH False
                  MODE_S ?s")
    case (Returned b s')
    then show ?thesis using T x by (simp add: access_rule_hlvx_def access_rule_def)
  next
    case (Raised ex s')
    then show ?thesis
      using T d xs by (auto simp: pf_cause_def tval_of_target_def)
  next
    case Aborted
    then show ?thesis using T a by (simp add: MODE_defs)
  qed
qed

text \<open>
  The claim as first stated fails while \<^verbatim>\<open>hlvx\<close> is set: a read of a page that is
  executable but not readable is permitted with both \<^verbatim>\<open>MXR\<close> bits clear.
\<close>

theorem check_permission_hlvx_counterexample:
  "check_permission config_zero 0xC9 True 0x1000 MEM_TYPE_READ True MODE_S
     (state_zero\<lparr>hlvx := True\<rparr>) = Returned True (state_zero\<lparr>hlvx := True\<rparr>)
   \<and> \<not> access_rule (state_zero\<lparr>hlvx := True\<rparr>) 0xC9 MEM_TYPE_READ True"
  by (simp add: check_permission_def access_rule_def pte_defs state_zero_def status_zero_def
      config_zero_def MODE_defs Let_def)

subsection \<open>Classification of entries by the walker\<close>

text \<open>
  A leaf the loop of \<^verbatim>\<open>ptw\<close> ends at is a valid entry with the read bit, the execute bit
  or a reserved high bit set, found at a level from 0 to the starting level.
\<close>

lemma ptw_walk_leaf:
  "ptw_walk e cfg vaddr type virt level pg_base s = Returned (WalkLeaf l q pb p) s' \<Longrightarrow>
   0 \<le> level \<Longrightarrow>
   pte_v q \<and> (pte_r q \<or> pte_x q \<or> pte_pad q \<noteq> 0) \<and> 0 \<le> l \<and> l \<le> level
     \<and> pb = PGBASE (pte_ppn q)"
proof (induction e cfg vaddr type virt level pg_base s rule: ptw_walk.induct)
  case (1 e cfg vaddr type virt level pg_base s)
  note W = "1.prems"(1) and L = "1.prems"(2)
  show ?case
  proof (cases "ptw_fetch e cfg vaddr type virt level pg_base s")
    case (Returned x s2)
    obtain p_pte pte where x: "x = (p_pte, pte)" by (cases x)
    note F = Returned[unfolded x]
    show ?thesis
    proof (cases "\<not> pte_v pte \<or> \<not> pte_r pte \<and> pte_w pte")
      case True
      then show ?thesis
        using W L F by (subst (asm) ptw_walk.simps) (simp add: Let_def)
    next
      case nb: False
      show ?thesis
      proof (cases "pte_r pte \<or> pte_x pte \<or> pte_pad pte \<noteq> 0")
        case True
        then show ?thesis
          using W L F nb by (subst (asm) ptw_walk.simps) (auto simp: Let_def)
      next
        case nl: False
        show ?thesis
        proof (cases "level - 1 < 0")
          case True
          then show ?thesis
            using W L F nb nl by (subst (asm) ptw_walk.simps) (simp add: Let_def)
        next
          case nn: False
          have W': "ptw_walk e cfg vaddr type virt (level - 1) (PGBASE (pte_ppn pte)) s2
                      = Returned (WalkLeaf l q pb p) s'"
            using W L F nb nl nn by (subst (asm) ptw_walk.simps) (simp add: Let_def)
          have "0 \<le> level - 1" using nn by simp
          from "1.IH"[OF L F refl refl nb nl nn W' this] show ?thesis by simp
        qed
      qed
    qed
  next
    case (Raised ex s2)
    then show ?thesis using W L by (subst (asm) ptw_walk.simps) simp
  next
    case Aborted
    then show ?thesis using W L by (subst (asm) ptw_walk.simps) simp
  qed
qed

text \<open>
  Claim C4, as amended. A valid entry with the read, write and execute bits all zero and
  the reserved high bits zero, read at a level above 0 (the root level is 2 or 3), makes
  the walker descend exactly one level: the walk continues as the walk from the level
  below with the table at the entry's physical page number, in the state the read left.
  The entry is not classified as a leaf, so the leaf permission check is not applied to it:
  a leaf the walk ends at lies at a lower level, and has the read bit, the execute bit or a
  reserved high bit set.
\<close>

theorem ptw_walk_nonleaf_descends:
  assumes f: "ptw_fetch e cfg vaddr type virt level pg_base s = Returned (p_pte, pte) s1"
    and n: "pte_v pte" "\<not> pte_r pte" "\<not> pte_w pte" "\<not> pte_x pte" "pte_pad pte = 0"
    and l: "0 < level"
  shows "ptw_walk e cfg vaddr type virt level pg_base s
           = ptw_walk e cfg vaddr type virt (level - 1) (PGBASE (pte_ppn pte)) s1
         \<and> (\<forall>k q pb p s'.
               ptw_walk e cfg vaddr type virt level pg_base s = Returned (WalkLeaf k q pb p) s'
               \<longrightarrow> k < level \<and> (pte_r q \<or> pte_x q \<or> pte_pad q \<noteq> 0))"
proof -
  have d: "ptw_walk e cfg vaddr type virt level pg_base s
           = ptw_walk e cfg vaddr type virt (level - 1) (PGBASE (pte_ppn pte)) s1"
    using f n l by (subst ptw_walk.simps) (simp add: Let_def)
  have "k < level \<and> (pte_r q \<or> pte_x q \<or> pte_pad q \<noteq> 0)"
    if w: "ptw_walk e cfg vaddr type virt level pg_base s = Returned (WalkLeaf k q pb p) s'"
    for k q pb p s'
  proof -
    have "ptw_walk e cfg vaddr type virt (level - 1) (PGBASE (pte_ppn pte)) s1
            = Returned (WalkLeaf k q pb p) s'"
      using w d by simp
    then show ?thesis
      using ptw_walk_leaf[of e cfg vaddr type virt "level - 1" "PGBASE (pte_ppn pte)" s1 k q pb p s'] l
      by simp
  qed
  then show ?thesis using d by blast
qed

text \<open>
  An instance: a root entry that points to the table at \<open>0x80001000\<close>.
\<close>

theorem ptw_walk_nonleaf_descends_witness:
  "ptw_fetch (env_of_table [(0x80000000, 0x20000401)]) config_zero 0 MEM_TYPE_READ False 2
       0x80000000 state_zero
     = Returned (0x80000000, 0x20000401) state_zero
   \<and> pte_v 0x20000401 \<and> \<not> pte_r 0x20000401 \<and> \<not> pte_w 0x20000401 \<and> \<not> pte_x 0x20000401
   \<and> pte_pad 0x20000401 = 0
   \<and> ptw_walk (env_of_table [(0x80000000, 0x20000401)]) config_zero 0 MEM_TYPE_READ False 2
         0x80000000 state_zero
       = ptw_walk (env_of_table [(0x80000000, 0x20000401)]) config_zero 0 MEM_TYPE_READ False 1
           0x80001000 state_zero"
proof -
  let ?e = "env_of_table [(0x80000000, 0x20000401)]"
  have f: "ptw_fetch ?e config_zero 0 MEM_TYPE_READ False 2 0x80000000 state_zero
             = Returned (0x80000000, 0x20000401) state_zero"
    by (simp add: ptw_fetch_def env_of_table_def pte_read_def config_zero_def VPNi_def
        VPNiSHFT_def PGSHFT_def)
  have n: "pte_v 0x20000401" "\<not> pte_r 0x20000401" "\<not> pte_w 0x20000401" "\<not> pte_x 0x20000401"
    "pte_pad 0x20000401 = 0"
    by (simp_all add: pte_defs)
  have b: "PGBASE (pte_ppn 0x20000401) = 0x80001000"
    by (simp add: PGBASE_def pte_ppn_def PGSHFT_def mask_eq_exp_minus_1)
  show ?thesis
    using ptw_walk_nonleaf_descends[OF f n] f n by (simp add: b)
qed

text \<open>
  The claim as first stated fails for an entry with a reserved high bit set: with the read,
  write and execute bits zero it is classified as a leaf at the root level, and the walk
  does not descend.
\<close>

theorem ptw_walk_reserved_bits_counterexample:
  "pte_v 0x40000000000001 \<and> \<not> pte_r 0x40000000000001 \<and> \<not> pte_w 0x40000000000001
   \<and> \<not> pte_x 0x40000000000001
   \<and> ptw_walk (env_of_table [(0x80000000, 0x40000000000001)]) config_zero 0 MEM_TYPE_READ False
        2 0x80000000 state_zero
      = Returned (WalkLeaf 2 0x40000000000001 0 0x80000000) state_zero"
proof -
  have w: "ptw_walk (env_of_table [(0x80000000, 0x40000000000001)]) config_zero 0 MEM_TYPE_READ
        False 2 0x80000000 state_zero
      = Returned (WalkLeaf 2 0x40000000000001 0 0x80000000) state_zero"
    by (subst ptw_walk.simps)
      (simp add: ptw_fetch_def env_of_table_def pte_read_def config_zero_def VPNi_def
        VPNiSHFT_def PGSHFT_def pte_defs PGBASE_def Let_def mask_eq_exp_minus_1)
  show ?thesis using w by (simp add: pte_defs)
qed

subsection \<open>Superpages\<close>

text \<open>
  What the permission check, the label \<^verbatim>\<open>bad\<close> and the accessed/dirty block can do: return
  with the state unchanged, raise the page fault of the access kind, or stop at an
  assertion.
\<close>

lemma pf_cause_pt_level [simp]: "pf_cause (s\<lparr>pt_level := l\<rparr>) type = pf_cause s type"
  by (simp add: pf_cause_def)

lemma check_permission_outcome:
  "case check_permission cfg pte ok vaddr type virt pmode s of
     Returned b s' \<Rightarrow> b \<and> s' = s \<and> ok
   | Raised ex s' \<Rightarrow> ex = pf_cause s type
   | Aborted \<Rightarrow> (type = MEM_TYPE_IFETCH \<and> amo s) \<or> \<not> (pmode = MODE_U \<or> pmode = MODE_S)"
  by (auto simp: check_permission_def Let_def pf_cause_def)

lemma ptw_bad_outcome:
  "case ptw_bad cfg pte vaddr type virt pmode s of
     Returned pa s' \<Rightarrow> False
   | Raised ex s' \<Rightarrow> ex = pf_cause s type
   | Aborted \<Rightarrow> (type = MEM_TYPE_IFETCH \<and> amo s) \<or> \<not> (pmode = MODE_U \<or> pmode = MODE_S)"
  using check_permission_outcome[where cfg=cfg and pte=pte and ok=False and vaddr=vaddr and type=type and virt=virt and pmode=pmode and s=s]
  by (cases "check_permission cfg pte False vaddr type virt pmode s") (simp_all add: ptw_bad_def)

lemma ptw_update_ad_outcome:
  "case ptw_update_ad cfg pte vaddr type s of
     Returned u s' \<Rightarrow> s' = s
   | Raised ex s' \<Rightarrow> ex = pf_cause s type
   | Aborted \<Rightarrow> False"
  by (auto simp: ptw_update_ad_def Let_def pf_cause_def)

lemma ptw_leaf_superpage_direct:
  assumes l: "0 < level"
  shows "case ptw_leaf e cfg vaddr type False pmode level pte pg_base s of
           Returned pa s' \<Rightarrow>
             pg_base AND (push_bit (VPNiSHFT level) 1 - 1) = 0
             \<and> pa = pg_base OR (vaddr AND (push_bit (VPNiSHFT level) 1 - 1) AND NOT PGMASK)
         | Raised ex s' \<Rightarrow> ex = pf_cause s type
         | Aborted \<Rightarrow> (type = MEM_TYPE_IFETCH \<and> amo s) \<or> \<not> (pmode = MODE_U \<or> pmode = MODE_S)"
proof (cases "check_permission cfg pte True vaddr type False pmode s")
  case (Returned b s1)
  then have b: "b" and s1: "s1 = s"
    using check_permission_outcome[where cfg=cfg and pte=pte and ok=True and vaddr=vaddr and type=type and virt=False and pmode=pmode and s=s] by simp_all
  let ?s2 = "s\<lparr>pt_level := level\<rparr>"
  let ?m = "push_bit (VPNiSHFT level) 1 - 1 :: 64 word"
  show ?thesis
  proof (cases "pg_base AND ?m \<noteq> 0")
    case True
    then have "ptw_leaf e cfg vaddr type False pmode level pte pg_base s
                 = ptw_bad cfg pte vaddr type False pmode ?s2"
      using Returned b s1 l by (simp add: ptw_leaf_def Let_def)
    then show ?thesis
      using ptw_bad_outcome[where cfg=cfg and pte=pte and vaddr=vaddr and type=type and virt=False and pmode=pmode and s="?s2"]
      by (cases "ptw_bad cfg pte vaddr type False pmode ?s2") simp_all
  next
    case False
    let ?pa = "pg_base AND NOT ?m OR vaddr AND ?m AND NOT PGMASK"
    have e: "ptw_leaf e cfg vaddr type False pmode level pte pg_base s
               = bind (ptw_update_ad cfg pte vaddr type ?s2)
                   (\<lambda>_ s4. Returned (?pa OR MEM_RET_OK) s4)"
      using Returned b s1 l False by (simp add: ptw_leaf_def Let_def)
    have a: "pg_base AND NOT ?m = pg_base"
      using False by (simp add: and_not_of_and_zero)
    show ?thesis
      unfolding e a
      using ptw_update_ad_outcome[where cfg=cfg and pte=pte and vaddr=vaddr and type=type and s="?s2"] False
      by (cases "ptw_update_ad cfg pte vaddr type ?s2") (simp_all add: MEM_RET_OK_def)
  qed
next
  case (Raised ex s1)
  then show ?thesis
    using check_permission_outcome[where cfg=cfg and pte=pte and ok=True and vaddr=vaddr and type=type and virt=False and pmode=pmode and s=s]
    by (simp add: ptw_leaf_def)
next
  case Aborted
  then show ?thesis
    using check_permission_outcome[where cfg=cfg and pte=pte and ok=True and vaddr=vaddr and type=type and virt=False and pmode=pmode and s=s]
    by (simp add: ptw_leaf_def)
qed

lemma ptw_leaf_superpage_two_stage:
  assumes l: "0 < level"
  shows "case ptw_leaf e cfg vaddr type True pmode level pte pg_base s of
           Returned pa s' \<Rightarrow>
             pg_base AND (push_bit (VPNiSHFT level) 1 - 1) = 0
             \<and> (\<exists>r. gpa_stage e cfg
                        ((pg_base OR (vaddr AND (push_bit (VPNiSHFT level) 1 - 1) AND NOT PGMASK))
                           OR (vaddr AND PAGE_MASK))
                        vaddr type (s\<lparr>pt_level := level\<rparr>) = Returned r s'
                    \<and> pa = r AND NOT PAGE_MASK)
         | Raised ex s' \<Rightarrow>
             ex = pf_cause s type \<or> pg_base AND (push_bit (VPNiSHFT level) 1 - 1) = 0
         | Aborted \<Rightarrow>
             (type = MEM_TYPE_IFETCH \<and> amo s) \<or> \<not> (pmode = MODE_U \<or> pmode = MODE_S)
             \<or> pg_base AND (push_bit (VPNiSHFT level) 1 - 1) = 0"
proof (cases "check_permission cfg pte True vaddr type True pmode s")
  case (Returned b s1)
  then have b: "b" and s1: "s1 = s"
    using check_permission_outcome[where cfg=cfg and pte=pte and ok=True and vaddr=vaddr and type=type and virt=True and pmode=pmode and s=s] by simp_all
  let ?s2 = "s\<lparr>pt_level := level\<rparr>"
  let ?m = "push_bit (VPNiSHFT level) 1 - 1 :: 64 word"
  show ?thesis
  proof (cases "pg_base AND ?m \<noteq> 0")
    case True
    then have "ptw_leaf e cfg vaddr type True pmode level pte pg_base s
                 = ptw_bad cfg pte vaddr type True pmode ?s2"
      using Returned b s1 l by (simp add: ptw_leaf_def Let_def)
    then show ?thesis
      using ptw_bad_outcome[where cfg=cfg and pte=pte and vaddr=vaddr and type=type and virt=True and pmode=pmode and s="?s2"]
      by (cases "ptw_bad cfg pte vaddr type True pmode ?s2") auto
  next
    case False
    then have z: "pg_base AND ?m = 0" by simp
    let ?g = "(pg_base OR (vaddr AND ?m AND NOT PGMASK)) OR (vaddr AND PAGE_MASK)"
    have a: "pg_base AND NOT ?m = pg_base"
      using z by (rule and_not_of_and_zero)
    have e: "ptw_leaf e cfg vaddr type True pmode level pte pg_base s
               = bind (bind (gpa_stage e cfg
                               (((pg_base AND NOT ?m) OR (vaddr AND ?m AND NOT PGMASK))
                                  OR (vaddr AND PAGE_MASK))
                               vaddr type ?s2)
                         (\<lambda>r s3. Returned (r AND NOT PAGE_MASK) s3))
                   (\<lambda>pg_base2 s3.
                      if pg_base2 = MEM_RET_FAIL then Returned MEM_RET_FAIL s3
                      else bind (ptw_update_ad cfg pte vaddr type s3)
                             (\<lambda>_ s4. Returned (pg_base2 OR MEM_RET_OK) s4))"
      using Returned b s1 l z by (simp add: ptw_leaf_def Let_def)
    note e = e[unfolded a]
    show ?thesis
    proof (cases "gpa_stage e cfg ?g vaddr type ?s2")
      case g: (Returned r s3)
      show ?thesis
      proof (cases "r AND NOT PAGE_MASK = MEM_RET_FAIL")
        case True
        then show ?thesis unfolding e g using z by simp
      next
        case nf: False
        show ?thesis
          unfolding e g
          using ptw_update_ad_outcome[where cfg=cfg and pte=pte and vaddr=vaddr and type=type and s=s3] z nf
          by (cases "ptw_update_ad cfg pte vaddr type s3") (simp_all add: MEM_RET_OK_def)
      qed
    next
      case (Raised ex s3)
      then show ?thesis unfolding e using z by simp
    next
      case Aborted
      then show ?thesis unfolding e using z by simp
    qed
  qed
next
  case (Raised ex s1)
  then show ?thesis
    using check_permission_outcome[where cfg=cfg and pte=pte and ok=True and vaddr=vaddr and type=type and virt=True and pmode=pmode and s=s]
    by (simp add: ptw_leaf_def)
next
  case Aborted
  then show ?thesis
    using check_permission_outcome[where cfg=cfg and pte=pte and ok=True and vaddr=vaddr and type=type and virt=True and pmode=pmode and s=s]
    by (auto simp: ptw_leaf_def)
qed

lemma splice_bits_offset:
  fixes pg_base vaddr :: "64 word"
  assumes z: "pg_base AND mask n = 0" and n: "12 \<le> n"
  shows "bit ((pg_base OR (vaddr AND mask n AND NOT (mask 12))) OR (vaddr AND mask 12)) i
           = (if i < n then bit vaddr i else bit pg_base i)"
proof -
  have "bit ((pg_base OR (vaddr AND mask n AND NOT (mask 12))) OR (vaddr AND mask 12)) i
          = (bit (pg_base OR (vaddr AND mask n AND NOT (mask 12))) i \<or> bit (vaddr AND mask 12) i)"
    by (simp only: bit_or_iff)
  also have "\<dots> = ((if i < n then 12 \<le> i \<and> bit vaddr i else bit pg_base i)
                     \<or> (bit vaddr i \<and> i < 12))"
    unfolding splice_bits[OF z] by (auto simp: bit_and_iff bit_mask_iff dest: bit_imp_le_length)
  also have "\<dots> = (if i < n then bit vaddr i else bit pg_base i)"
    using n by auto
  finally show ?thesis .
qed

text \<open>
  Claim C3, as amended. For a leaf the walker finds at a level \<open>L\<close> above 0, with or
  without the second stage: a leaf whose page base has a nonzero bit below \<open>L * 9 + 12\<close>
  makes the translation fail, with the page fault of the access kind raised through
  \<^verbatim>\<open>check_permission\<close> (or a stop at one of its assertions), never with an address
  returned. When \<^verbatim>\<open>ptw\<close> returns, the address formed from the leaf has its bits
  \<open>L * 9 + 12 - 1\<close> down to 12 taken from the virtual address and the bits from
  \<open>L * 9 + 12\<close> up from the page base of the entry. In a walk without the second stage
  (the effective virtualization flag of the access is off) that address, with bits 11
  down to 0 zero, is the physical address returned. Under two-stage translation it is a
  guest-physical address: with the page offset of the virtual address in bits 11 down to
  0 it is sent through \<^verbatim>\<open>gpa_stage\<close>, and the address returned is the result of the second
  stage with the page offset cleared. The only exceptions other than the page fault of the
  access kind are those of the second stage, for an aligned leaf.
\<close>

theorem ptw_superpage:
  assumes fs: "\<not> (ptw_virt s type \<and> atp_mode (vsatp s) = 0)"
    and c: "sext_ok (if ptw_max_level s (ptw_virt s type) = 4 then 48 else 39) vaddr"
    and w: "ptw_walk e cfg vaddr type (ptw_virt s type)
              (ptw_max_level s (ptw_virt s type) - 1) (ptw_root s (ptw_virt s type)) s
              = Returned (WalkLeaf level pte pg_base p_pte) s1"
    and l: "0 < level"
  shows "case ptw e cfg vaddr type s of
           Returned pa s' \<Rightarrow>
             pg_base AND (push_bit (VPNiSHFT level) 1 - 1) = 0
             \<and> (if ptw_virt s type
                then (\<exists>g r. (\<forall>i. bit g i = (if i < VPNiSHFT level then bit vaddr i
                                               else bit pg_base i))
                          \<and> gpa_stage e cfg g vaddr type (s1\<lparr>pt_level := level\<rparr>)
                              = Returned r s'
                          \<and> pa = r AND NOT PAGE_MASK)
                else (\<forall>i. bit pa i = (if i < VPNiSHFT level then 12 \<le> i \<and> bit vaddr i
                                        else bit pg_base i)))
         | Raised ex s' \<Rightarrow>
             ex = pf_cause s1 type
             \<or> (ptw_virt s type \<and> pg_base AND (push_bit (VPNiSHFT level) 1 - 1) = 0)
         | Aborted \<Rightarrow>
             (type = MEM_TYPE_IFETCH \<and> amo s1)
             \<or> \<not> (ptw_mode s type = MODE_U \<or> ptw_mode s type = MODE_S)
             \<or> (ptw_virt s type \<and> pg_base AND (push_bit (VPNiSHFT level) 1 - 1) = 0)"
proof -
  let ?virt = "ptw_virt s type"
  have m: "ptw_max_level s ?virt = 3 \<or> ptw_max_level s ?virt = 4"
    by (simp add: ptw_max_level_def)
  have e: "ptw e cfg vaddr type s
             = ptw_leaf e cfg vaddr type ?virt (ptw_mode s type) level pte pg_base s1"
    using fs c w m by (auto simp: ptw_def Let_def)
  show ?thesis
  proof (cases ?virt)
    case False
    note L = ptw_leaf_superpage_direct[OF l, where e=e and cfg=cfg and vaddr=vaddr
        and type=type and pmode="ptw_mode s type" and pte=pte and pg_base=pg_base and s=s1]
    note L' = L[unfolded PGMASK_def PGSHFT_def push1_minus1]
    have e': "ptw e cfg vaddr type s
                = ptw_leaf e cfg vaddr type False (ptw_mode s type) level pte pg_base s1"
      using e False by simp
    show ?thesis
    proof (cases "ptw_leaf e cfg vaddr type False (ptw_mode s type) level pte pg_base s1")
      case (Returned pa s')
      have "pg_base AND mask (VPNiSHFT level) = 0
        \<and> pa = pg_base OR (vaddr AND mask (VPNiSHFT level) AND NOT (mask 12))"
        using L' unfolding Returned by (simp only: outcome.case)
      then have z: "pg_base AND mask (VPNiSHFT level) = 0"
        and pa: "pa = pg_base OR (vaddr AND mask (VPNiSHFT level) AND NOT (mask 12))"
        by blast+
      have b: "\<forall>i. bit pa i = (if i < VPNiSHFT level then 12 \<le> i \<and> bit vaddr i
                                   else bit pg_base i)"
        unfolding pa using splice_bits[OF z] by blast
      show ?thesis
        unfolding e' Returned push1_minus1 using z b False
        by (simp only: outcome.case if_False) blast
    next
      case (Raised ex s')
      then show ?thesis unfolding e' using L by simp
    next
      case Aborted
      then show ?thesis unfolding e' using L by auto
    qed
  next
    case True
    note L = ptw_leaf_superpage_two_stage[OF l, where e=e and cfg=cfg and vaddr=vaddr
        and type=type and pmode="ptw_mode s type" and pte=pte and pg_base=pg_base and s=s1]
    note L' = L[unfolded PGMASK_def PGSHFT_def push1_minus1]
    have e': "ptw e cfg vaddr type s
                = ptw_leaf e cfg vaddr type True (ptw_mode s type) level pte pg_base s1"
      using e True by simp
    have pm: "PAGE_MASK = mask 12" by (simp add: PAGE_MASK_def mask_eq_exp_minus_1)
    have n: "12 \<le> VPNiSHFT level" by (simp add: VPNiSHFT_def PGSHFT_def)
    show ?thesis
    proof (cases "ptw_leaf e cfg vaddr type True (ptw_mode s type) level pte pg_base s1")
      case (Returned pa s')
      let ?g = "(pg_base OR (vaddr AND mask (VPNiSHFT level) AND NOT (mask 12)))
                  OR (vaddr AND PAGE_MASK)"
      have "pg_base AND mask (VPNiSHFT level) = 0
        \<and> (\<exists>r. gpa_stage e cfg ?g vaddr type (s1\<lparr>pt_level := level\<rparr>) = Returned r s'
                 \<and> pa = r AND NOT PAGE_MASK)"
        using L' unfolding Returned by (simp only: outcome.case)
      then obtain r where z: "pg_base AND mask (VPNiSHFT level) = 0"
        and g: "gpa_stage e cfg ?g vaddr type (s1\<lparr>pt_level := level\<rparr>) = Returned r s'"
        and pa: "pa = r AND NOT PAGE_MASK"
        by blast
      have b: "\<forall>i. bit ?g i = (if i < VPNiSHFT level then bit vaddr i else bit pg_base i)"
        unfolding pm using splice_bits_offset[OF z n] by blast
      have "\<exists>g r. (\<forall>i. bit g i = (if i < VPNiSHFT level then bit vaddr i else bit pg_base i))
                \<and> gpa_stage e cfg g vaddr type (s1\<lparr>pt_level := level\<rparr>) = Returned r s'
                \<and> pa = r AND NOT PAGE_MASK"
        using b g pa by blast
      then show ?thesis
        unfolding e' Returned push1_minus1 using z True
        by (simp only: outcome.case if_True)
    next
      case (Raised ex s')
      then show ?thesis unfolding e' using L True by auto
    next
      case Aborted
      then show ?thesis unfolding e' using L True by auto
    qed
  qed
qed

text \<open>
  An instance: a 1 GiB leaf at the root of an Sv39 table maps \<open>0x201000\<close> to
  \<open>0x80201000\<close>.
\<close>

theorem ptw_superpage_witness:
  "\<not> ptw_virt (state_zero\<lparr>mode := 1, satp := 0x8000000000080000\<rparr>) MEM_TYPE_READ
   \<and> sext_ok 39 0x201000
   \<and> ptw_walk (env_of_table [(0x80000000, 0x200000CF)]) config_zero 0x201000 MEM_TYPE_READ False 2
         0x80000000 (state_zero\<lparr>mode := 1, satp := 0x8000000000080000\<rparr>)
       = Returned (WalkLeaf 2 0x200000CF 0x80000000 0x80000000)
           (state_zero\<lparr>mode := 1, satp := 0x8000000000080000\<rparr>)
   \<and> ptw (env_of_table [(0x80000000, 0x200000CF)]) config_zero 0x201000 MEM_TYPE_READ
         (state_zero\<lparr>mode := 1, satp := 0x8000000000080000\<rparr>)
       = Returned 0x80201000 (state_zero\<lparr>mode := 1, satp := 0x8000000000080000, pt_level := 2\<rparr>)
   \<and> (0x80000000 :: 64 word) AND (push_bit (VPNiSHFT 2) 1 - 1) = 0
   \<and> bit (0x80201000 :: 64 word) 21 = bit (0x201000 :: 64 word) 21"
proof -
  let ?e = "env_of_table [(0x80000000, 0x200000CF)]"
  let ?s = "state_zero\<lparr>mode := 1, satp := 0x8000000000080000\<rparr>"
  have h: "ptw_virt ?s MEM_TYPE_READ = False" "ptw_mode ?s MEM_TYPE_READ = 1"
    "ptw_root ?s False = 0x80000000" "ptw_max_level ?s False = 3"
    by (simp_all add: ptw_virt_def ptw_mode_def ptw_root_def ptw_max_level_def walk_defs)
  have c: "sext_ok 39 0x201000" by (simp add: sext_ok_def)
  have w: "ptw_walk ?e config_zero 0x201000 MEM_TYPE_READ False 2 0x80000000 ?s
      = Returned (WalkLeaf 2 0x200000CF 0x80000000 0x80000000) ?s"
    by (subst ptw_walk.simps) (simp add: ptw_fetch_def pte_read_def pte_defs walk_defs)
  have l: "ptw_leaf ?e config_zero 0x201000 MEM_TYPE_READ False 1 2 0x200000CF 0x80000000 ?s
      = Returned 0x80201000 (?s\<lparr>pt_level := 2\<rparr>)"
    by (simp add: ptw_leaf_def check_permission_def ptw_update_ad_def pte_defs MODE_defs Let_def
        walk_defs)
  have p: "ptw ?e config_zero 0x201000 MEM_TYPE_READ ?s = Returned 0x80201000 (?s\<lparr>pt_level := 2\<rparr>)"
    by (simp add: ptw_def h c w l)
  have nv: "\<not> ptw_virt ?s MEM_TYPE_READ" using h by simp
  have fs: "\<not> (ptw_virt ?s MEM_TYPE_READ \<and> atp_mode (vsatp ?s) = 0)" using h by simp
  have c': "sext_ok (if ptw_max_level ?s (ptw_virt ?s MEM_TYPE_READ) = 4 then 48 else 39)
              0x201000"
    using c h by simp
  have w': "ptw_walk ?e config_zero 0x201000 MEM_TYPE_READ (ptw_virt ?s MEM_TYPE_READ)
              (ptw_max_level ?s (ptw_virt ?s MEM_TYPE_READ) - 1)
              (ptw_root ?s (ptw_virt ?s MEM_TYPE_READ)) ?s
      = Returned (WalkLeaf 2 0x200000CF 0x80000000 0x80000000) ?s"
    using w h by simp
  have "(0x80000000 :: 64 word) AND (push_bit (VPNiSHFT 2) 1 - 1) = 0
     \<and> (\<forall>i. bit (0x80201000 :: 64 word) i
            = (if i < VPNiSHFT 2 then 12 \<le> i \<and> bit (0x201000 :: 64 word) i
               else bit (0x80000000 :: 64 word) i))"
    using ptw_superpage[OF fs c' w'] nv unfolding p by simp
  then have a: "(0x80000000 :: 64 word) AND (push_bit (VPNiSHFT 2) 1 - 1) = 0"
    and b: "bit (0x80201000 :: 64 word) 21
            = (if 21 < VPNiSHFT 2 then 12 \<le> (21::nat) \<and> bit (0x201000 :: 64 word) 21
               else bit (0x80000000 :: 64 word) 21)"
    by blast+
  have b': "bit (0x80201000 :: 64 word) 21 = bit (0x201000 :: 64 word) 21"
    using b by (simp add: VPNiSHFT_def PGSHFT_def)
  show ?thesis using nv c w p a b' by blast
qed

text \<open>
  The claim as first stated fails under two-stage translation: the address \<^verbatim>\<open>ptw\<close>
  returns is the result of the second stage. Here the first stage finds a 1 GiB leaf at
  level 2 that maps the virtual address \<open>0x200000\<close> to the guest-physical address
  \<open>0x80200000\<close>, which the second stage maps with a 2 MiB page to \<open>0xA0000000\<close>: bit 21
  of the result is not bit 21 of the virtual address.
\<close>

theorem ptw_two_stage_counterexample:
  "ptw_walk (env_of_table [(0x80000000, 0x200000CF), (0x90000010, 0x24000401),
                            (0x90001000, 0x200000DF), (0x90001008, 0x280000DF)])
       config_zero 0x200000 MEM_TYPE_READ True 2 0x80000000
       (state_zero\<lparr>mode := 1, v := True, vsatp := 0x8000000000080000,
                    hgatp := 0x8000000000090000\<rparr>)
     = Returned (WalkLeaf 2 0x200000CF 0x80000000 0x80000000)
         (state_zero\<lparr>mode := 1, v := True, vsatp := 0x8000000000080000,
                      hgatp := 0x8000000000090000, pt_level := 0\<rparr>)
   \<and> ptw (env_of_table [(0x80000000, 0x200000CF), (0x90000010, 0x24000401),
                         (0x90001000, 0x200000DF), (0x90001008, 0x280000DF)])
       config_zero 0x200000 MEM_TYPE_READ
       (state_zero\<lparr>mode := 1, v := True, vsatp := 0x8000000000080000,
                    hgatp := 0x8000000000090000\<rparr>)
     = Returned 0xA0000000
         (state_zero\<lparr>mode := 1, v := True, vsatp := 0x8000000000080000,
                      hgatp := 0x8000000000090000, pt_level := 0\<rparr>)
   \<and> bit (0x200000 :: 64 word) 21 \<and> \<not> bit (0xA0000000 :: 64 word) 21"
proof -
  let ?e = "env_of_table [(0x80000000, 0x200000CF), (0x90000010, 0x24000401),
                          (0x90001000, 0x200000DF), (0x90001008, 0x280000DF)]"
  let ?s = "state_zero\<lparr>mode := 1, v := True, vsatp := 0x8000000000080000,
                        hgatp := 0x8000000000090000\<rparr>"
  have h: "ptw_virt ?s MEM_TYPE_READ = True" "ptw_mode ?s MEM_TYPE_READ = 1"
    "ptw_root ?s True = 0x80000000" "ptw_max_level ?s True = 3" "atp_mode (vsatp ?s) \<noteq> 0"
    by (simp_all add: ptw_virt_def ptw_mode_def ptw_root_def ptw_max_level_def walk_defs)
  have c: "sext_ok 39 0x200000" by (simp add: sext_ok_def)
  have g1: "gpa_stage ?e config_zero 0x80000000 0x200000 MEM_TYPE_READ ?s
              = Returned 0x80000000 (?s\<lparr>pt_level := 0\<rparr>)"
    by (simp add: gpa_stage_def gpa_walk.simps pte_defs walk_defs Let_def)
  have g2: "gpa_stage ?e config_zero 0x80200000 0x200000 MEM_TYPE_READ (?s\<lparr>pt_level := 2\<rparr>)
              = Returned 0xA0000000 (?s\<lparr>pt_level := 0\<rparr>)"
    by (simp add: gpa_stage_def gpa_walk.simps pte_defs walk_defs Let_def)
  have f: "ptw_fetch ?e config_zero 0x200000 MEM_TYPE_READ True 2 0x80000000 ?s
             = Returned (0x80000000, 0x200000CF) (?s\<lparr>pt_level := 0\<rparr>)"
    by (simp add: ptw_fetch_def pte_read_def VPNi_def VPNiSHFT_def PGSHFT_def VPNMASK_def
        PTE_SIZE_def g1)
  have w: "ptw_walk ?e config_zero 0x200000 MEM_TYPE_READ True 2 0x80000000 ?s
      = Returned (WalkLeaf 2 0x200000CF 0x80000000 0x80000000) (?s\<lparr>pt_level := 0\<rparr>)"
    by (subst ptw_walk.simps) (simp add: f pte_defs walk_defs)
  have l: "ptw_leaf ?e config_zero 0x200000 MEM_TYPE_READ True 1 2 0x200000CF 0x80000000
             (?s\<lparr>pt_level := 0\<rparr>)
      = Returned 0xA0000000 (?s\<lparr>pt_level := 0\<rparr>)"
    by (simp add: ptw_leaf_def check_permission_def ptw_update_ad_def pte_defs MODE_defs Let_def
        VPNiSHFT_def PGSHFT_def PGMASK_def PAGE_MASK_def MEM_RET_OK_def MEM_RET_FAIL_def g2)
  have p: "ptw ?e config_zero 0x200000 MEM_TYPE_READ ?s
             = Returned 0xA0000000 (?s\<lparr>pt_level := 0\<rparr>)"
    using h(5) by (simp add: ptw_def h(1-4) c w l)
  have b: "bit (0x200000 :: 64 word) 21" "\<not> bit (0xA0000000 :: 64 word) 21" by simp_all
  show ?thesis using w p b by blast
qed

subsection \<open>Second-stage rejections\<close>

text \<open>
  Claim C6 does not hold of the code at a misaligned superpage leaf of the second stage.
  With \<^verbatim>\<open>hgatp\<close> in Sv39x4 mode and a root entry that is a valid, user, readable leaf
  whose page base \<open>0x1000\<close> is not aligned to 1 GiB, \<^verbatim>\<open>gpa_stage\<close> returns
  \<^verbatim>\<open>MEM_RET_FAIL\<close> and raises nothing; no trap-value register is written. Its callers
  mask the value with the page mask, so \<^verbatim>\<open>ptw\<close> and \<^verbatim>\<open>isa_mmu_translate\<close> return
  physical address 0 as a successful translation.
\<close>

theorem gpa_stage_misaligned_superpage_returns:
  "gpa_stage (env_of_table [(0x90000000, 0x4DF)]) config_zero 0 0 MEM_TYPE_READ
       (state_zero\<lparr>v := True, hgatp := 0x8000000000090000\<rparr>)
     = Returned MEM_RET_FAIL (state_zero\<lparr>v := True, hgatp := 0x8000000000090000, pt_level := 0\<rparr>)
   \<and> ptw (env_of_table [(0x90000000, 0x4DF)]) config_zero 0 MEM_TYPE_READ
       (state_zero\<lparr>v := True, hgatp := 0x8000000000090000\<rparr>)
     = Returned 0 (state_zero\<lparr>v := True, hgatp := 0x8000000000090000, pt_level := 0\<rparr>)
   \<and> isa_mmu_translate (env_of_table [(0x90000000, 0x4DF)]) config_zero 0 4 MEM_TYPE_READ
       (state_zero\<lparr>v := True, hgatp := 0x8000000000090000\<rparr>)
     = Returned 0 (state_zero\<lparr>v := True, hgatp := 0x8000000000090000, pt_level := 0\<rparr>)"
proof -
  let ?e = "env_of_table [(0x90000000, 0x4DF)]"
  let ?s = "state_zero\<lparr>v := True, hgatp := 0x8000000000090000\<rparr>"
  have g: "gpa_stage ?e config_zero 0 0 MEM_TYPE_READ ?s
             = Returned MEM_RET_FAIL (?s\<lparr>pt_level := 0\<rparr>)"
    by (simp add: gpa_stage_def gpa_walk.simps pte_defs walk_defs Let_def)
  have h: "ptw_virt ?s MEM_TYPE_READ = True" "atp_mode (vsatp ?s) = 0"
    by (simp_all add: ptw_virt_def atp_mode_def)
  have p: "ptw ?e config_zero 0 MEM_TYPE_READ ?s = Returned 0 (?s\<lparr>pt_level := 0\<rparr>)"
    by (simp add: ptw_def h(1) g atp_mode_def Let_def MEM_RET_FAIL_def PAGE_MASK_def)
  have t: "isa_mmu_translate ?e config_zero 0 4 MEM_TYPE_READ ?s
             = Returned 0 (?s\<lparr>pt_level := 0\<rparr>)"
    by (simp add: isa_mmu_translate_def is_cross_page_def PAGE_MASK_def PAGE_SIZE_def p
        MEM_RET_FAIL_def MEM_RET_OK_def force_raise_pf_def force_raise_gpf_def Let_def)
  show ?thesis using g p t by blast
qed

subsection \<open>The canonical-address check\<close>










subsection \<open>Region PMP: partial overlap\<close>

text \<open>
  The sector loop computes, over the sector offsets of the access, whether some sector
  matches the entry and whether every sector does; the entry loop passes over the entries
  that are off or match no sector, each time with the \<^verbatim>\<open>tor\<close> of the entry before as base.
\<close>

lemma pmp_sectors_eq:
  "pmp_sectors cfg s i base addr n offset a b
     = (a \<or> list_ex (\<lambda>off. pmp_sector_match cfg s i base (addr + of_nat off))
                (sector_offsets n offset),
        b \<and> list_all (\<lambda>off. pmp_sector_match cfg s i base (addr + of_nat off))
                (sector_offsets n offset))"
proof (induction cfg s i base addr n offset a b rule: pmp_sectors.induct)
  case (1 cfg s i base addr n offset any_match all_match)
  show ?case
  proof (cases "offset < n")
    case True
    have o: "sector_offsets n offset = offset # sector_offsets n (offset + 4)"
      using True by (subst sector_offsets.simps) simp
    show ?thesis
      using True "1.IH"[OF True refl refl]
      by (subst pmp_sectors.simps) (auto simp: o Let_def PMP_SHIFT_def)
  next
    case False
    have o: "sector_offsets n offset = []"
      using False by (subst sector_offsets.simps) simp
    show ?thesis
      using False by (subst pmp_sectors.simps) (simp add: o)
  qed
qed

lemma pmp_sectors_entry:
  "pmp_sectors cfg s i (pmp_base cfg s i) addr n 0 False True
     = (some_sector_matches cfg s addr n i, every_sector_matches cfg s addr n i)"
  by (simp add: pmp_sectors_eq some_sector_matches_def every_sector_matches_def
      sector_matches_def[abs_def])

lemma pmp_base_Suc: "pmp_tor cfg s i = pmp_base cfg s (i + 1)"
  by (simp add: pmp_base_def)

lemma pmp_entries_partial:
  assumes n: "n \<le> 2 ^ 64 - 4"
    and j: "j < CONFIG_RV_PMP_ACTIVE_NUM cfg"
    and a: "pmp_active s j"
    and p: "some_sector_matches cfg s addr n j" "\<not> every_sector_matches cfg s addr n j"
  shows "i \<le> j \<Longrightarrow>
         (\<forall>k. i \<le> k \<and> k < j \<longrightarrow> \<not> (pmp_active s k \<and> some_sector_matches cfg s addr n k)) \<Longrightarrow>
         pmp_entries cfg s addr n type pmode i (pmp_base cfg s i) = Some False"
proof (induction "j - i" arbitrary: i)
  case 0
  then have e: "i = j" by simp
  show ?case
    unfolding e
    using n j a p
    by (subst pmp_entries.simps) (simp add: Let_def pmp_sectors_entry pmp_active_def)
next
  case (Suc d)
  then have lt: "i < j" and d: "d = j - (i + 1)" and le: "i + 1 \<le> j" by simp_all
  have nb: "\<forall>k. i + 1 \<le> k \<and> k < j \<longrightarrow> \<not> (pmp_active s k \<and> some_sector_matches cfg s addr n k)"
    using Suc.prems(2) by simp
  have IH: "pmp_entries cfg s addr n type pmode (i + 1) (pmp_base cfg s (i + 1)) = Some False"
    using Suc.hyps(1)[OF d le nb] .
  have here: "\<not> (pmp_active s i \<and> some_sector_matches cfg s addr n i)"
    using Suc.prems(2) lt by simp
  have iN: "i < CONFIG_RV_PMP_ACTIVE_NUM cfg" using lt j by simp
  show ?case
  proof (cases "pmp_active s i")
    case True
    then have "\<not> some_sector_matches cfg s addr n i"
      using here by simp
    then show ?thesis
      using iN True n IH
      by (subst pmp_entries.simps)
        (simp add: Let_def pmp_sectors_entry pmp_active_def pmp_base_Suc)
  next
    case False
    then show ?thesis
      using iN IH
      by (subst pmp_entries.simps) (simp add: Let_def pmp_active_def pmp_base_Suc)
  qed
qed


text \<open>
  The sectors of an access of 8 bytes, and what the two concrete set-ups hold.
\<close>

lemma sector_offsets_8: "sector_offsets 8 0 = [0, 4]"
  by (simp add: sector_offsets.simps)

lemma pmp_config_simps:
  "CONFIG_RV_PMP_ACTIVE_NUM pmp_config = 2" "pmp_tor_mask pmp_config = - 1024"
  by (simp_all add: pmp_config_def)

lemma pmp_state_napot_simps:
  "pmpaddr pmp_state_napot 0 = 0x5FF" "pmpcfg pmp_state_napot 0 = 0x1F"
  "mode pmp_state_napot = 3" "mstatus pmp_state_napot = status_zero"
  by (simp_all add: pmp_state_napot_def)

lemma pmp_state_tor_napot_simps:
  "pmpaddr pmp_state_tor_napot 0 = 0x1000" "pmpcfg pmp_state_tor_napot 0 = 0x09"
  "pmpaddr pmp_state_tor_napot (Suc 0) = 0x5FF" "pmpcfg pmp_state_tor_napot (Suc 0) = 0x18"
  "mode pmp_state_tor_napot = 0" "mstatus pmp_state_tor_napot = status_zero"
  by (simp_all add: pmp_state_tor_napot_def)

lemma napot_sectors:
  "sector_matches pmp_config pmp_state_napot 0xFFC 0 0 = False"
  "sector_matches pmp_config pmp_state_napot 0xFFC 0 4 = True"
  by (simp_all add: sector_matches_def pmp_sector_match_def pmp_mask_def pmp_tor_def
      pmp_base_def PMP_defs Let_def pmp_config_simps pmp_state_napot_simps)

lemma tor_napot_sectors:
  "sector_matches pmp_config pmp_state_tor_napot 0xFFC 0 0"
  "sector_matches pmp_config pmp_state_tor_napot 0xFFC 0 4"
  "\<not> sector_matches pmp_config pmp_state_tor_napot 0xFFC (Suc 0) 0"
  "sector_matches pmp_config pmp_state_tor_napot 0xFFC (Suc 0) 4"
  by (simp_all add: sector_matches_def pmp_sector_match_def pmp_mask_def pmp_tor_def
      pmp_base_def PMP_defs Let_def pmp_config_simps pmp_state_tor_napot_simps)

text \<open>
  Claim C7, as amended. If some 4-byte sector of the access matches entry \<open>j\<close> and some
  sector does not, entry \<open>j\<close> is among the checked entries and is active, and every entry
  before \<open>j\<close> is off or matches no sector of the access, then
  \<^verbatim>\<open>isa_pmp_check_permission\<close> returns false, whatever the R, W, X and lock bits of
  entry \<open>j\<close>, the access type and the mode. The length, as the unsigned 64-bit number the
  sector loop compares the offset with, is at most \<open>2 ^ 64 - 4\<close> (any \<^verbatim>\<open>len\<close> but -3, -2
  and -1, for which the sector loop does not end).
\<close>

theorem pmp_partial_overlap_denied:
  assumes "j < CONFIG_RV_PMP_ACTIVE_NUM cfg"
    and "n = unat (scast len :: 64 word)"
    and "n \<le> 2 ^ 64 - 4"
    and "pmp_active s j"
    and "some_sector_matches cfg s addr n j"
    and "\<not> every_sector_matches cfg s addr n j"
    and "none_before cfg s addr n j"
  shows "isa_pmp_check_permission cfg s addr len type out_mode = Some False"
proof -
  have nb: "\<forall>k. 0 \<le> k \<and> k < j \<longrightarrow> \<not> (pmp_active s k \<and> some_sector_matches cfg s addr n k)"
    using assms(7) by (simp add: none_before_def list_all_iff)
  have b0: "pmp_base cfg s 0 = 0" by (simp add: pmp_base_def)
  have "pmp_entries cfg s addr n type pmode 0 (pmp_base cfg s 0) = Some False" for pmode
    using pmp_entries_partial[OF assms(3) assms(1) assms(4) assms(5) assms(6) _ nb] by simp
  then show ?thesis
    using assms(1) assms(2) by (simp add: isa_pmp_check_permission_def Let_def b0)
qed

text \<open>
  An instance: a write of 8 bytes at \<open>0xFFC\<close> in machine mode, against the 4 KiB region at
  \<open>0x1000\<close> that grants R, W and X and is not locked. The sector at \<open>0xFFC\<close> is outside the
  region and the sector at \<open>0x1000\<close> inside.
\<close>

theorem pmp_partial_overlap_denied_witness:
  "isa_pmp_check_permission pmp_config pmp_state_napot 0xFFC 8 MEM_TYPE_WRITE MODE_M
     = Some False"
proof -
  have n: "(8 :: nat) = unat (scast (8 :: 32 word) :: 64 word)" by simp
  have a: "pmp_active pmp_state_napot 0"
    by (simp add: pmp_active_def pmp_state_napot_simps PMP_defs)
  have p: "some_sector_matches pmp_config pmp_state_napot 0xFFC 8 0"
    "\<not> every_sector_matches pmp_config pmp_state_napot 0xFFC 8 0"
    by (simp_all add: some_sector_matches_def every_sector_matches_def sector_offsets_8
        napot_sectors)
  have b: "none_before pmp_config pmp_state_napot 0xFFC 8 0"
    by (simp add: none_before_def)
  show ?thesis
    using pmp_partial_overlap_denied[where cfg = pmp_config and s = pmp_state_napot
        and j = 0 and n = 8 and len = 8 and addr = "0xFFC" and type = MEM_TYPE_WRITE
        and out_mode = MODE_M, OF _ n _ a p b]
    by (simp add: pmp_config_simps)
qed

text \<open>
  Claim C7 as it was stated does not hold when a lower-numbered entry decides the access:
  a read of 8 bytes at \<open>0xFFC\<close> in supervisor mode lies wholly in entry 0 (0 to \<open>0x4000\<close>,
  readable) and is granted, although its second sector matches entry 1 (the 4 KiB region at
  \<open>0x1000\<close>) and its first does not.
\<close>

theorem pmp_lower_entry_grants_counterexample:
  "isa_pmp_check_permission pmp_config pmp_state_tor_napot 0xFFC 8 MEM_TYPE_READ MODE_S
     = Some True
   \<and> pmp_active pmp_state_tor_napot 1
   \<and> some_sector_matches pmp_config pmp_state_tor_napot 0xFFC 8 1
   \<and> \<not> every_sector_matches pmp_config pmp_state_tor_napot 0xFFC 8 1"
proof -
  have s: "pmp_sectors pmp_config pmp_state_tor_napot 0 0 0xFFC 8 0 False True = (True, True)"
    using pmp_sectors_entry[of pmp_config pmp_state_tor_napot 0 "0xFFC" 8]
    by (simp add: pmp_base_def some_sector_matches_def every_sector_matches_def
        sector_offsets_8 tor_napot_sectors)
  have e: "pmp_entries pmp_config pmp_state_tor_napot 0xFFC 8 MEM_TYPE_READ MODE_S 0 0
             = Some True"
    by (subst pmp_entries.simps)
      (simp add: s Let_def pmp_config_simps pmp_state_tor_napot_simps PMP_defs MODE_defs)
  have r: "isa_pmp_check_permission pmp_config pmp_state_tor_napot 0xFFC 8 MEM_TYPE_READ MODE_S
             = Some True"
  proof -
    have m: "(MODE_S :: 32 word) \<noteq> MODE_M" by (simp add: MODE_defs)
    show ?thesis
      by (simp add: isa_pmp_check_permission_def Let_def pmp_config_simps e m)
  qed
  have a: "pmp_active pmp_state_tor_napot 1"
    by (simp add: pmp_active_def pmp_state_tor_napot_simps PMP_defs)
  have p: "some_sector_matches pmp_config pmp_state_tor_napot 0xFFC 8 1"
    "\<not> every_sector_matches pmp_config pmp_state_tor_napot 0xFFC 8 1"
    by (simp_all add: some_sector_matches_def every_sector_matches_def sector_offsets_8
        tor_napot_sectors)
  show ?thesis using r a p by simp
qed

end
